theory Spec2Isabelle
  imports Main "HOL-Library.Sublist" "HOL-Library.Word"
begin

unbundle bit_operations_syntax

section \<open>Feature sources of node-feature-discovery (sources.go)\<close>

text \<open>
  The four feature sources of \<^verbatim>\<open>sources.go\<close> are embedded as functions of a
  \<^emph>\<open>backend\<close>: the part of the operating system that a \<^verbatim>\<open>Discover\<close> call
  consults (files, directories, the interface table, helper processes, the CPU
  identification library). A call returns its outcome together with the list of
  operations it performed on the backend and the lines it logged, in program order.
  Two variants of the network source exist: the one named \<^verbatim>\<open>network\<close>
  (direct access, \<^verbatim>\<open>net.Interfaces\<close>) and the one named \<^verbatim>\<open>netid\<close>
  (sysfs mounted under \<^verbatim>\<open>/hostsys\<close>).
\<close>

subsection \<open>Library functions used by the sources\<close>

text \<open>
  \<^verbatim>\<open>strings.Contains\<close>: \<open>substr\<close> occurs somewhere in \<open>s\<close>.
\<close>

fun Contains :: "string \<Rightarrow> string \<Rightarrow> bool" where
  "Contains [] substr = (substr = [])"
| "Contains (c # s) substr = (prefix substr (c # s) \<or> Contains s substr)"

text \<open>
  \<^verbatim>\<open>bytes.TrimSpace\<close> removes leading and trailing white space as defined by
  \<^verbatim>\<open>unicode.IsSpace\<close>, on UTF-8 encoded bytes. \<open>space_runes\<close> lists the encodings
  of the white-space runes: the six ASCII ones, U+0085, U+00A0, U+1680,
  U+2000 to U+200A, U+2028, U+2029, U+202F, U+205F and U+3000.
\<close>

definition space_runes :: "string list" where
  "space_runes =
    [[CHR 0x09], [CHR 0x0A], [CHR 0x0B], [CHR 0x0C], [CHR 0x0D], [CHR 0x20],
     [CHR 0xC2, CHR 0x85], [CHR 0xC2, CHR 0xA0],
     [CHR 0xE1, CHR 0x9A, CHR 0x80],
     [CHR 0xE2, CHR 0x80, CHR 0x80], [CHR 0xE2, CHR 0x80, CHR 0x81],
     [CHR 0xE2, CHR 0x80, CHR 0x82], [CHR 0xE2, CHR 0x80, CHR 0x83],
     [CHR 0xE2, CHR 0x80, CHR 0x84], [CHR 0xE2, CHR 0x80, CHR 0x85],
     [CHR 0xE2, CHR 0x80, CHR 0x86], [CHR 0xE2, CHR 0x80, CHR 0x87],
     [CHR 0xE2, CHR 0x80, CHR 0x88], [CHR 0xE2, CHR 0x80, CHR 0x89],
     [CHR 0xE2, CHR 0x80, CHR 0x8A],
     [CHR 0xE2, CHR 0x80, CHR 0xA8], [CHR 0xE2, CHR 0x80, CHR 0xA9],
     [CHR 0xE2, CHR 0x80, CHR 0xAF],
     [CHR 0xE2, CHR 0x81, CHR 0x9F],
     [CHR 0xE3, CHR 0x80, CHR 0x80]]"

text \<open>Width in bytes of the white-space rune \<open>s\<close> starts (ends) with; 0 if there is none.\<close>

definition leading_space :: "string \<Rightarrow> nat" where
  "leading_space s = (case filter (\<lambda>e. prefix e s) space_runes of [] \<Rightarrow> 0 | e # _ \<Rightarrow> length e)"

definition trailing_space :: "string \<Rightarrow> nat" where
  "trailing_space s = (case filter (\<lambda>e. suffix e s) space_runes of [] \<Rightarrow> 0 | e # _ \<Rightarrow> length e)"

function TrimLeftSpace :: "string \<Rightarrow> string" where
  "TrimLeftSpace s =
     (if 0 < leading_space s then TrimLeftSpace (drop (leading_space s) s) else s)"
  by pat_completeness auto
termination
proof (relation "measure length")
  show "wf (measure length)" by simp
next
  fix s :: string
  assume pos: "0 < leading_space s"
  have "leading_space s \<le> length s"
    by (auto simp: leading_space_def filter_eq_Cons_iff prefix_def split: list.splits)
  with pos show "(drop (leading_space s) s, s) \<in> measure length"
    by (cases s) auto
qed

function TrimRightSpace :: "string \<Rightarrow> string" where
  "TrimRightSpace s =
     (if 0 < trailing_space s then TrimRightSpace (take (length s - trailing_space s) s) else s)"
  by pat_completeness auto
termination
proof (relation "measure length")
  show "wf (measure length)" by simp
next
  fix s :: string
  assume pos: "0 < trailing_space s"
  have "trailing_space s \<le> length s"
    by (auto simp: trailing_space_def filter_eq_Cons_iff suffix_def split: list.splits)
  with pos show "(take (length s - trailing_space s) s, s) \<in> measure length"
    by (cases s) auto
qed

declare TrimLeftSpace.simps [simp del] TrimRightSpace.simps [simp del]

definition TrimSpace :: "string \<Rightarrow> string" where
  "TrimSpace s = TrimRightSpace (TrimLeftSpace s)"

text \<open>
  \<^verbatim>\<open>strconv.Atoi\<close>: an optional sign followed by one or more decimal digits, whose
  value fits the type \<^verbatim>\<open>int\<close>; every other input is an error (\<open>None\<close>). The type
  \<^verbatim>\<open>int\<close> has \<open>intSize\<close> bits; the helpers are built for a 64-bit platform.
\<close>

definition intSize :: nat where
  "intSize = 64"

definition isDigit :: "char \<Rightarrow> bool" where
  "isDigit ch = (48 \<le> (of_char ch :: nat) \<and> (of_char ch :: nat) \<le> 57)"

fun digits_value :: "int \<Rightarrow> string \<Rightarrow> int" where
  "digits_value n [] = n"
| "digits_value n (ch # s) = digits_value (n * 10 + (int (of_char ch) - 48)) s"

definition Atoi :: "string \<Rightarrow> int option" where
  "Atoi s0 =
    (let s = (case s0 of [] \<Rightarrow> []
              | c # r \<Rightarrow> if c = CHR ''-'' \<or> c = CHR ''+'' then r else s0)
     in if s = [] then None
        else if list_all isDigit s then
          (let n = (if take 1 s0 = ''-'' then - digits_value 0 s else digits_value 0 s)
           in if - (2 ^ (intSize - 1)) \<le> n \<and> n < 2 ^ (intSize - 1) then Some n else None)
        else None)"

text \<open>
  Addition on \<^verbatim>\<open>int\<close> wraps around in two's complement.
\<close>

definition wrap_int :: "int \<Rightarrow> int" where
  "wrap_int x = (x + 2 ^ (intSize - 1)) mod 2 ^ intSize - 2 ^ (intSize - 1)"

definition int_add :: "int \<Rightarrow> int \<Rightarrow> int" where
  "int_add a b = wrap_int (a + b)"

text \<open>
  \<^verbatim>\<open>net.Flags\<close> is a bit mask; \<^verbatim>\<open>Flags.String\<close> joins the names of the bits that
  are set with \<^verbatim>\<open>|\<close>, and is \<^verbatim>\<open>0\<close> when none is set.
\<close>

definition flagNames :: "string list" where
  "flagNames = [''up'', ''broadcast'', ''loopback'', ''pointtopoint'', ''multicast'', ''running'']"

fun join_flags :: "32 word \<Rightarrow> 32 word \<Rightarrow> string list \<Rightarrow> string \<Rightarrow> string" where
  "join_flags f m [] s = s"
| "join_flags f m (name # names) s =
     join_flags f (2 * m) names
       (if f AND m \<noteq> 0 then (if s \<noteq> [] then s @ ''|'' else s) @ name else s)"

definition Flags_String :: "32 word \<Rightarrow> string" where
  "Flags_String f = (let s = join_flags f 1 flagNames [] in if s = [] then ''0'' else s)"

text \<open>
  \<^verbatim>\<open>path.Join\<close> on two clean, non-empty elements, the only use the sources make of it.
\<close>

definition path_Join :: "string \<Rightarrow> string \<Rightarrow> string" where
  "path_Join dir name = dir @ ''/'' @ name"

subsection \<open>Backend, events and outcomes\<close>

record iface =
  Name :: string
  Flags :: "32 word"

text \<open>
  \<^verbatim>\<open>cmd.Run\<close> starts the command and waits for it to complete: it returns nil
  after exit status 0, an error after any other exit status or when the command could
  not be started, and does not return while the process does not exit.
\<close>

datatype run_result = ExitZero | RunError string | NeverExits

record backend =
  ioutil_ReadFile :: "string \<Rightarrow> string + string"
  ioutil_ReadDir :: "string \<Rightarrow> string + string list"
  net_Interfaces :: "string + iface list"
  cmd_Run :: "string list \<Rightarrow> run_result"
  cpuid_Features_Strings :: "string list"

text \<open>
  For the file operations \<open>Inl msg\<close> is a non-nil error with text \<open>msg\<close> and
  \<open>Inr\<close> carries the bytes read, respectively the names of the directory entries.
\<close>

datatype arg = S string | D int | AtoiError string

datatype event =
    ReadFile string
  | ReadDir string
  | NetInterfaces
  | Run "string list"
  | Stderr string "arg list"
  | Stdout string "arg list"

text \<open>
  What a call of \<^verbatim>\<open>Discover\<close> does: return a feature list with a nil error, return
  nil with an error, panic, or never return.
\<close>

datatype outcome = Features "string list" | Error string | Panic string | Blocked

subsection \<open>CPUID source\<close>

definition cpuid_Discover :: "backend \<Rightarrow> outcome \<times> event list" where
  "cpuid_Discover b = (Features (cpuid_Features_Strings b), [])"

subsection \<open>RDT source\<close>

definition RDTBin :: string where
  "RDTBin = ''/go/src/github.com/kubernetes-incubator/node-feature-discovery/rdt-discovery''"

text \<open>
  One of the three blocks of \<^verbatim>\<open>rdtSource.Discover\<close>, which differ in the helper,
  the log line and the feature only: run the helper through \<^verbatim>\<open>bash -c\<close>, log when
  it fails, append the feature when it succeeds. \<open>None\<close>: \<^verbatim>\<open>cmd.Run\<close> does not return.
\<close>

definition helper_cmd :: "string \<Rightarrow> string list" where
  "helper_cmd helper = [''bash'', ''-c'', path_Join RDTBin helper]"

definition rdt_check ::
  "backend \<Rightarrow> string \<Rightarrow> string \<Rightarrow> string \<Rightarrow> string list \<Rightarrow> string list option \<times> event list" where
  "rdt_check b helper msg feature features =
    (let cmd = helper_cmd helper in
     case cmd_Run b cmd of
       NeverExits \<Rightarrow> (None, [Run cmd])
     | RunError err \<Rightarrow> (Some features, [Run cmd, Stderr msg [S err]])
     | ExitZero \<Rightarrow> (Some (features @ [feature]), [Run cmd]))"

definition rdt_Discover :: "backend \<Rightarrow> outcome \<times> event list" where
  "rdt_Discover b =
    (case rdt_check b ''mon-discovery''
            ''support for RDT monitoring was not detected: %s'' ''RDTMON'' [] of
       (None, ev1) \<Rightarrow> (Blocked, ev1)
     | (Some features, ev1) \<Rightarrow>
        (case rdt_check b ''l3-alloc-discovery''
                ''support for RDT L3 allocation was not detected: %s'' ''RDTL3CA'' features of
           (None, ev2) \<Rightarrow> (Blocked, ev1 @ ev2)
         | (Some features, ev2) \<Rightarrow>
            (case rdt_check b ''l2-alloc-discovery''
                    ''support for RDT L2 allocation was not detected: %s'' ''RDTL2CA'' features of
               (None, ev3) \<Rightarrow> (Blocked, ev1 @ ev2 @ ev3)
             | (Some features, ev3) \<Rightarrow> (Features features, ev1 @ ev2 @ ev3))))"

subsection \<open>PState source\<close>

definition no_turbo :: string where
  "no_turbo = ''/sys/devices/system/cpu/intel_pstate/no_turbo''"

definition pstate_Discover :: "backend \<Rightarrow> outcome \<times> event list" where
  "pstate_Discover b =
    (case ioutil_ReadFile b no_turbo of
       Inl err \<Rightarrow>
         (Error (''can't detect whether turbo boost is enabled: '' @ err), [ReadFile no_turbo])
     | Inr bytes \<Rightarrow>
        (case bytes of
           [] \<Rightarrow> (Panic ''index out of range'', [ReadFile no_turbo])
         | b0 # _ \<Rightarrow>
            if b0 = CHR ''0'' then (Features [''turbo''], [ReadFile no_turbo])
            else (Features [], [ReadFile no_turbo])))"

subsection \<open>Network source, direct access (named \<^verbatim>\<open>network\<close>)\<close>

datatype ctl = Continue | Break

text \<open>
  The body of the loop over the interfaces: the feature list after the iteration,
  whether the loop goes on or is left by \<^verbatim>\<open>break\<close>, and the events of the iteration.
\<close>

definition network_body :: "backend \<Rightarrow> iface \<Rightarrow> string list \<Rightarrow> string list \<times> ctl \<times> event list" where
  "network_body b netInterface features =
    (if Contains (Flags_String (Flags netInterface)) ''up''
        \<and> \<not> Contains (Flags_String (Flags netInterface)) ''loopback''
     then
       (let totalVfsPath = ''/sys/class/net/'' @ Name netInterface @ ''/device/sriov_totalvfs'' in
        case ioutil_ReadFile b totalVfsPath of
          Inl err \<Rightarrow>
            (features, Continue,
             [ReadFile totalVfsPath,
              Stderr ''SR-IOV not supported for network interface: %s: %s''
                [S (Name netInterface), S err]])
        | Inr totalBytes \<Rightarrow>
           (let total = TrimSpace totalBytes in
            case Atoi total of
              None \<Rightarrow>
                (features, Continue,
                 [ReadFile totalVfsPath,
                  Stderr ''Error in obtaining maximum supported number of virtual functions for network interface: %s: %s''
                    [S (Name netInterface), AtoiError total]])
            | Some t \<Rightarrow>
               if t > 0 then
                 (let ev =
                    [ReadFile totalVfsPath,
                     Stdout ''SR-IOV capability is detected on the network interface: %s''
                       [S (Name netInterface)],
                     Stdout ''%d maximum supported number of virtual functions on network interface: %s''
                       [D t, S (Name netInterface)]];
                    features = features @ [''sriov''];
                    numVfsPath = ''/sys/class/net/'' @ Name netInterface @ ''/device/sriov_numvfs''
                  in
                  case ioutil_ReadFile b numVfsPath of
                    Inl err \<Rightarrow>
                      (features, Continue,
                       ev @ [ReadFile numVfsPath,
                             Stderr ''SR-IOV not configured for network interface: %s: %s''
                               [S (Name netInterface), S err]])
                  | Inr numBytes \<Rightarrow>
                     (let num = TrimSpace numBytes in
                      case Atoi num of
                        None \<Rightarrow>
                          (features, Continue,
                           ev @ [ReadFile numVfsPath,
                                 Stderr ''Error in obtaining the configured number of virtual functions for network interface: %s: %s''
                                   [S (Name netInterface), AtoiError num]])
                      | Some n \<Rightarrow>
                         if n > 0 then
                           (features @ [''sriov-configured''], Break,
                            ev @ [ReadFile numVfsPath,
                                  Stderr ''%d virtual functions configured on network interface: %s''
                                    [D n, S (Name netInterface)]])
                         else if n = 0 then
                           (features, Continue,
                            ev @ [ReadFile numVfsPath,
                                  Stderr ''SR-IOV not configured on network interface: %s''
                                    [S (Name netInterface)]])
                         else (features, Continue, ev @ [ReadFile numVfsPath])))
               else (features, Continue, [ReadFile totalVfsPath])))
     else (features, Continue, []))"

fun network_loop :: "backend \<Rightarrow> iface list \<Rightarrow> string list \<Rightarrow> string list \<times> event list" where
  "network_loop b [] features = (features, [])"
| "network_loop b (netInterface # rest) features =
     (case network_body b netInterface features of
        (features', Break, ev) \<Rightarrow> (features', ev)
      | (features', Continue, ev) \<Rightarrow>
          (case network_loop b rest features' of (features'', ev') \<Rightarrow> (features'', ev @ ev')))"

definition network_Discover :: "backend \<Rightarrow> outcome \<times> event list" where
  "network_Discover b =
    (case net_Interfaces b of
       Inl err \<Rightarrow>
         (Error (''can't obtain the network interfaces details: '' @ err), [NetInterfaces])
     | Inr netInterfaces \<Rightarrow>
        (case network_loop b netInterfaces [] of
           (features, ev) \<Rightarrow> (Features features, NetInterfaces # ev)))"

subsection \<open>Network source, mounted sysfs (named \<^verbatim>\<open>netid\<close>)\<close>

definition hostsys_net :: string where
  "hostsys_net = ''/hostsys/class/net''"

text \<open>The body of the loop over the directory entries: the running total after the iteration.\<close>

definition netid_body :: "backend \<Rightarrow> string \<Rightarrow> int \<Rightarrow> int \<times> event list" where
  "netid_body b name total_num_vfs =
    (let filename = ''/hostsys/class/net/'' @ name @ ''/device/sriov_numvfs'' in
     case ioutil_ReadFile b filename of
       Inl err \<Rightarrow> (total_num_vfs, [ReadFile filename])
     | Inr bytes_received \<Rightarrow>
        (let num = TrimSpace bytes_received in
         if length bytes_received = 0 then (total_num_vfs, [ReadFile filename])
         else
           (case Atoi num of
              None \<Rightarrow> (total_num_vfs, [ReadFile filename])
            | Some n \<Rightarrow> (int_add total_num_vfs n, [ReadFile filename]))))"

fun netid_loop :: "backend \<Rightarrow> string list \<Rightarrow> int \<Rightarrow> int \<times> event list" where
  "netid_loop b [] total_num_vfs = (total_num_vfs, [])"
| "netid_loop b (name # rest) total_num_vfs =
     (case netid_body b name total_num_vfs of
        (total_num_vfs', ev) \<Rightarrow>
          (case netid_loop b rest total_num_vfs' of (total_num_vfs'', ev') \<Rightarrow> (total_num_vfs'', ev @ ev')))"

definition netid_Discover :: "backend \<Rightarrow> outcome \<times> event list" where
  "netid_Discover b =
    (case ioutil_ReadDir b hostsys_net of
       Inl err \<Rightarrow> (Error (''can't obtain the network interfaces: '' @ err), [ReadDir hostsys_net])
     | Inr netInterfaces \<Rightarrow>
        (case netid_loop b netInterfaces 0 of
           (total_num_vfs, ev) \<Rightarrow>
             (Features (if total_num_vfs > 0 then [''SRIOV''] else []), ReadDir hostsys_net # ev)))"

subsection \<open>The sources as state transformers\<close>

text \<open>
  The same five methods once more, statement by statement, with the state passed along
  explicitly. A world is the backend together with the history of everything done and
  logged so far; the receivers are empty structs and the package has no variables besides
  the two loggers, so this is all the state there is. Every operation receives the whole
  world, history included, and returns the world after it; reading a file, listing a
  directory or waiting for a helper leaves the backend as it is and enters the operation
  in the history, and a log line is entered in the history too.
\<close>

type_synonym world = "backend \<times> event list"

definition io_ReadFile :: "string \<Rightarrow> world \<Rightarrow> (string + string) \<times> world" where
  "io_ReadFile path w = (ioutil_ReadFile (fst w) path, (fst w, snd w @ [ReadFile path]))"

definition io_ReadDir :: "string \<Rightarrow> world \<Rightarrow> (string + string list) \<times> world" where
  "io_ReadDir path w = (ioutil_ReadDir (fst w) path, (fst w, snd w @ [ReadDir path]))"

definition io_Interfaces :: "world \<Rightarrow> (string + iface list) \<times> world" where
  "io_Interfaces w = (net_Interfaces (fst w), (fst w, snd w @ [NetInterfaces]))"

definition io_Run :: "string list \<Rightarrow> world \<Rightarrow> run_result \<times> world" where
  "io_Run cmd w = (cmd_Run (fst w) cmd, (fst w, snd w @ [Run cmd]))"

definition io_Features_Strings :: "world \<Rightarrow> string list \<times> world" where
  "io_Features_Strings w = (cpuid_Features_Strings (fst w), w)"

definition stderrLogger_Printf :: "string \<Rightarrow> arg list \<Rightarrow> world \<Rightarrow> world" where
  "stderrLogger_Printf format args w = (fst w, snd w @ [Stderr format args])"

definition stdoutLogger_Printf :: "string \<Rightarrow> arg list \<Rightarrow> world \<Rightarrow> world" where
  "stdoutLogger_Printf format args w = (fst w, snd w @ [Stdout format args])"

definition cpuidSource_Discover :: "world \<Rightarrow> outcome \<times> world" where
  "cpuidSource_Discover w =
    (case io_Features_Strings w of (strings, w) \<Rightarrow> (Features strings, w))"

definition rdtSource_check ::
  "string \<Rightarrow> string \<Rightarrow> string \<Rightarrow> string list \<Rightarrow> world \<Rightarrow> string list option \<times> world" where
  "rdtSource_check helper msg feature features w =
    (case io_Run (helper_cmd helper) w of
       (NeverExits, w) \<Rightarrow> (None, w)
     | (RunError err, w) \<Rightarrow> (Some features, stderrLogger_Printf msg [S err] w)
     | (ExitZero, w) \<Rightarrow> (Some (features @ [feature]), w))"

definition rdtSource_Discover :: "world \<Rightarrow> outcome \<times> world" where
  "rdtSource_Discover w =
    (case rdtSource_check ''mon-discovery''
            ''support for RDT monitoring was not detected: %s'' ''RDTMON'' [] w of
       (None, w) \<Rightarrow> (Blocked, w)
     | (Some features, w) \<Rightarrow>
        (case rdtSource_check ''l3-alloc-discovery''
                ''support for RDT L3 allocation was not detected: %s'' ''RDTL3CA'' features w of
           (None, w) \<Rightarrow> (Blocked, w)
         | (Some features, w) \<Rightarrow>
            (case rdtSource_check ''l2-alloc-discovery''
                    ''support for RDT L2 allocation was not detected: %s'' ''RDTL2CA'' features w of
               (None, w) \<Rightarrow> (Blocked, w)
             | (Some features, w) \<Rightarrow> (Features features, w))))"

definition pstateSource_Discover :: "world \<Rightarrow> outcome \<times> world" where
  "pstateSource_Discover w =
    (case io_ReadFile no_turbo w of
       (Inl err, w) \<Rightarrow> (Error (''can't detect whether turbo boost is enabled: '' @ err), w)
     | (Inr bytes, w) \<Rightarrow>
        (case bytes of
           [] \<Rightarrow> (Panic ''index out of range'', w)
         | b0 # _ \<Rightarrow>
            if b0 = CHR ''0'' then (Features [''turbo''], w) else (Features [], w)))"

definition networkSource_body ::
  "iface \<Rightarrow> string list \<Rightarrow> world \<Rightarrow> (string list \<times> ctl) \<times> world" where
  "networkSource_body netInterface features w =
    (if Contains (Flags_String (Flags netInterface)) ''up''
        \<and> \<not> Contains (Flags_String (Flags netInterface)) ''loopback''
     then
       (let totalVfsPath = ''/sys/class/net/'' @ Name netInterface @ ''/device/sriov_totalvfs'' in
        case io_ReadFile totalVfsPath w of
          (Inl err, w) \<Rightarrow>
            ((features, Continue),
             stderrLogger_Printf ''SR-IOV not supported for network interface: %s: %s''
               [S (Name netInterface), S err] w)
        | (Inr totalBytes, w) \<Rightarrow>
           (let total = TrimSpace totalBytes in
            case Atoi total of
              None \<Rightarrow>
                ((features, Continue),
                 stderrLogger_Printf ''Error in obtaining maximum supported number of virtual functions for network interface: %s: %s''
                   [S (Name netInterface), AtoiError total] w)
            | Some t \<Rightarrow>
               if t > 0 then
                 (let w = stdoutLogger_Printf
                            ''SR-IOV capability is detected on the network interface: %s''
                            [S (Name netInterface)] w;
                      w = stdoutLogger_Printf
                            ''%d maximum supported number of virtual functions on network interface: %s''
                            [D t, S (Name netInterface)] w;
                      features = features @ [''sriov''];
                      numVfsPath = ''/sys/class/net/'' @ Name netInterface @ ''/device/sriov_numvfs''
                  in
                  case io_ReadFile numVfsPath w of
                    (Inl err, w) \<Rightarrow>
                      ((features, Continue),
                       stderrLogger_Printf ''SR-IOV not configured for network interface: %s: %s''
                         [S (Name netInterface), S err] w)
                  | (Inr numBytes, w) \<Rightarrow>
                     (let num = TrimSpace numBytes in
                      case Atoi num of
                        None \<Rightarrow>
                          ((features, Continue),
                           stderrLogger_Printf ''Error in obtaining the configured number of virtual functions for network interface: %s: %s''
                             [S (Name netInterface), AtoiError num] w)
                      | Some n \<Rightarrow>
                         if n > 0 then
                           ((features @ [''sriov-configured''], Break),
                            stderrLogger_Printf
                              ''%d virtual functions configured on network interface: %s''
                              [D n, S (Name netInterface)] w)
                         else if n = 0 then
                           ((features, Continue),
                            stderrLogger_Printf
                              ''SR-IOV not configured on network interface: %s''
                              [S (Name netInterface)] w)
                         else ((features, Continue), w)))
               else ((features, Continue), w)))
     else ((features, Continue), w))"

fun networkSource_loop :: "iface list \<Rightarrow> string list \<Rightarrow> world \<Rightarrow> string list \<times> world" where
  "networkSource_loop [] features w = (features, w)"
| "networkSource_loop (netInterface # rest) features w =
     (case networkSource_body netInterface features w of
        ((features, Break), w) \<Rightarrow> (features, w)
      | ((features, Continue), w) \<Rightarrow> networkSource_loop rest features w)"

definition networkSource_Discover :: "world \<Rightarrow> outcome \<times> world" where
  "networkSource_Discover w =
    (case io_Interfaces w of
       (Inl err, w) \<Rightarrow> (Error (''can't obtain the network interfaces details: '' @ err), w)
     | (Inr netInterfaces, w) \<Rightarrow>
        (case networkSource_loop netInterfaces [] w of
           (features, w) \<Rightarrow> (Features features, w)))"

definition netidSource_body :: "string \<Rightarrow> int \<Rightarrow> world \<Rightarrow> int \<times> world" where
  "netidSource_body name total_num_vfs w =
    (let filename = ''/hostsys/class/net/'' @ name @ ''/device/sriov_numvfs'' in
     case io_ReadFile filename w of
       (Inl err, w) \<Rightarrow> (total_num_vfs, w)
     | (Inr bytes_received, w) \<Rightarrow>
        (let num = TrimSpace bytes_received in
         if length bytes_received = 0 then (total_num_vfs, w)
         else
           (case Atoi num of
              None \<Rightarrow> (total_num_vfs, w)
            | Some n \<Rightarrow> (int_add total_num_vfs n, w))))"

fun netidSource_loop :: "string list \<Rightarrow> int \<Rightarrow> world \<Rightarrow> int \<times> world" where
  "netidSource_loop [] total_num_vfs w = (total_num_vfs, w)"
| "netidSource_loop (name # rest) total_num_vfs w =
     (case netidSource_body name total_num_vfs w of
        (total_num_vfs, w) \<Rightarrow> netidSource_loop rest total_num_vfs w)"

definition netidSource_Discover :: "world \<Rightarrow> outcome \<times> world" where
  "netidSource_Discover w =
    (case io_ReadDir hostsys_net w of
       (Inl err, w) \<Rightarrow> (Error (''can't obtain the network interfaces: '' @ err), w)
     | (Inr netInterfaces, w) \<Rightarrow>
        (case netidSource_loop netInterfaces 0 w of
           (total_num_vfs, w) \<Rightarrow>
             (Features (if total_num_vfs > 0 then [''SRIOV''] else []), w)))"

subsection \<open>The \<^verbatim>\<open>FeatureSource\<close> interface\<close>

text \<open>
  The five implementations of the interface; a call of \<^verbatim>\<open>Discover\<close> on a source is
  the call of its method.
\<close>

datatype source = cpuidSource | rdtSource | pstateSource | networkSource | netidSource

fun Name_of :: "source \<Rightarrow> string" where
  "Name_of cpuidSource = ''cpuid''"
| "Name_of rdtSource = ''rdt''"
| "Name_of pstateSource = ''pstate''"
| "Name_of networkSource = ''network''"
| "Name_of netidSource = ''netid''"

fun Discover :: "source \<Rightarrow> world \<Rightarrow> outcome \<times> world" where
  "Discover cpuidSource w = cpuidSource_Discover w"
| "Discover rdtSource w = rdtSource_Discover w"
| "Discover pstateSource w = pstateSource_Discover w"
| "Discover networkSource w = networkSource_Discover w"
| "Discover netidSource w = netidSource_Discover w"

text \<open>The same dispatch on the functions of the backend.\<close>

fun probe :: "source \<Rightarrow> backend \<Rightarrow> outcome \<times> event list" where
  "probe cpuidSource = cpuid_Discover"
| "probe rdtSource = rdt_Discover"
| "probe pstateSource = pstate_Discover"
| "probe networkSource = network_Discover"
| "probe netidSource = netid_Discover"

subsection \<open>Vocabulary of the properties\<close>

text \<open>
  The value an attribute file parses to: the file is read, white space is trimmed and
  the rest is converted by \<open>Atoi\<close>. \<open>None\<close> when the file cannot be read or its
  content (the empty content included) is not an integer.
\<close>

definition read_int :: "backend \<Rightarrow> string \<Rightarrow> int option" where
  "read_int b path =
    (case ioutil_ReadFile b path of Inl err \<Rightarrow> None | Inr bytes \<Rightarrow> Atoi (TrimSpace bytes))"

definition totalVfsPath :: "iface \<Rightarrow> string" where
  "totalVfsPath i = ''/sys/class/net/'' @ Name i @ ''/device/sriov_totalvfs''"

definition numVfsPath :: "iface \<Rightarrow> string" where
  "numVfsPath i = ''/sys/class/net/'' @ Name i @ ''/device/sriov_numvfs''"

definition hostsys_numvfs :: "string \<Rightarrow> string" where
  "hostsys_numvfs name = ''/hostsys/class/net/'' @ name @ ''/device/sriov_numvfs''"

text \<open>The interfaces the direct-access mode looks at: up and not loopback.\<close>

definition selected :: "iface \<Rightarrow> bool" where
  "selected i =
    (Contains (Flags_String (Flags i)) ''up'' \<and> \<not> Contains (Flags_String (Flags i)) ''loopback'')"

definition positive :: "int option \<Rightarrow> bool" where
  "positive v = (case v of None \<Rightarrow> False | Some n \<Rightarrow> 0 < n)"

text \<open>
  \<open>capable\<close>: a selected interface whose total-virtual-functions attribute parses to a
  positive value. \<open>configured\<close>: a capable interface whose configured-virtual-functions
  attribute parses to a positive value.
\<close>

definition capable :: "backend \<Rightarrow> iface \<Rightarrow> bool" where
  "capable b i = (selected i \<and> positive (read_int b (totalVfsPath i)))"

definition configured :: "backend \<Rightarrow> iface \<Rightarrow> bool" where
  "configured b i = (capable b i \<and> positive (read_int b (numVfsPath i)))"

text \<open>The features one iteration of the direct-access loop appends.\<close>

definition tokens :: "backend \<Rightarrow> iface \<Rightarrow> string list" where
  "tokens b i =
    (if capable b i then (if configured b i then [''sriov'', ''sriov-configured''] else [''sriov''])
     else [])"

text \<open>
  The interfaces the direct-access loop reaches: all up to and including the first
  configured one.
\<close>

fun examined :: "backend \<Rightarrow> iface list \<Rightarrow> iface list" where
  "examined b [] = []"
| "examined b (i # rest) = (if configured b i then [i] else i # examined b rest)"

text \<open>
  The grand total of the mounted-sysfs mode: the sum of the values that the
  \<^verbatim>\<open>sriov_numvfs\<close> attributes of the directory entries parse to, as an \<^verbatim>\<open>int\<close>.
\<close>

definition numvfs_values :: "backend \<Rightarrow> string list \<Rightarrow> int list" where
  "numvfs_values b names = List.map_filter (\<lambda>name. read_int b (hostsys_numvfs name)) names"

definition grand_total :: "backend \<Rightarrow> string list \<Rightarrow> int" where
  "grand_total b names = wrap_int (sum_list (numvfs_values b names))"

fun is_Run :: "event \<Rightarrow> bool" where
  "is_Run (Run cmd) = True"
| "is_Run e = False"

definition rdt_helpers :: "(string \<times> string) list" where
  "rdt_helpers =
    [(''mon-discovery'', ''RDTMON''), (''l3-alloc-discovery'', ''RDTL3CA''),
     (''l2-alloc-discovery'', ''RDTL2CA'')]"

subsection \<open>Example hosts\<close>

text \<open>
  A host given by the content of its files, its directories and its interface table;
  every other file or directory cannot be read, and every helper exits with status 1.
\<close>

definition host :: "(string \<times> string) list \<Rightarrow> (string \<times> string list) list \<Rightarrow> iface list \<Rightarrow> backend" where
  "host files dirs ifs =
    \<lparr>ioutil_ReadFile = (\<lambda>p. case map_of files p of
                               None \<Rightarrow> Inl (''open '' @ p @ '': no such file or directory'')
                             | Some content \<Rightarrow> Inr content),
     ioutil_ReadDir = (\<lambda>p. case map_of dirs p of
                              None \<Rightarrow> Inl (''open '' @ p @ '': no such file or directory'')
                            | Some names \<Rightarrow> Inr names),
     net_Interfaces = Inr ifs,
     cmd_Run = (\<lambda>cmd. RunError ''exit status 1''),
     cpuid_Features_Strings = [''SSE2'', ''AVX2'']\<rparr>"

definition eth :: "string \<Rightarrow> iface" where
  "eth name = \<lparr>Name = name, Flags = 0x13\<rparr>"

text \<open>
  The example of the specification: interface A with total 0, B with total 4 and
  nothing configured, C with total 8 and 2 configured.
\<close>

definition host_ABC :: backend where
  "host_ABC =
    host [(''/sys/class/net/A/device/sriov_totalvfs'', [CHR ''0'', CHR 0x0A]),
          (''/sys/class/net/A/device/sriov_numvfs'', [CHR ''0'', CHR 0x0A]),
          (''/sys/class/net/B/device/sriov_totalvfs'', [CHR ''4'', CHR 0x0A]),
          (''/sys/class/net/B/device/sriov_numvfs'', [CHR ''0'', CHR 0x0A]),
          (''/sys/class/net/C/device/sriov_totalvfs'', [CHR ''8'', CHR 0x0A]),
          (''/sys/class/net/C/device/sriov_numvfs'', [CHR ''2'', CHR 0x0A])]
         [] [eth ''A'', eth ''B'', eth ''C'']"

text \<open>The same interfaces in the order A, C, B: the configured one comes before B.\<close>

definition host_ACB :: backend where
  "host_ACB = host_ABC\<lparr>net_Interfaces := Inr [eth ''A'', eth ''C'', eth ''B'']\<rparr>"

text \<open>
  A host with faulty attributes: D has no attribute files, the configured count of E is
  not a number; C has total 8 and 2 configured. The interface table lists them as D, E,
  C; the mounted sysfs has the same three entries, listed by name.
\<close>

definition host_faulty :: backend where
  "host_faulty =
    host [(''/sys/class/net/E/device/sriov_totalvfs'', [CHR ''4'', CHR 0x0A]),
          (''/sys/class/net/E/device/sriov_numvfs'', ''abc''),
          (''/sys/class/net/C/device/sriov_totalvfs'', [CHR ''8'', CHR 0x0A]),
          (''/sys/class/net/C/device/sriov_numvfs'', [CHR ''2'', CHR 0x0A]),
          (''/hostsys/class/net/E/device/sriov_numvfs'', ''abc''),
          (''/hostsys/class/net/C/device/sriov_numvfs'', [CHR ''2'', CHR 0x0A])]
         [(''/hostsys/class/net'', [''C'', ''D'', ''E''])]
         [eth ''D'', eth ''E'', eth ''C'']"

text \<open>A host whose interface table cannot be obtained and whose sysfs is not mounted.\<close>

definition host_noenum :: backend where
  "host_noenum = (host [] [] [])\<lparr>net_Interfaces := Inl ''route ip+net: netlinkrib: too many open files''\<rparr>"

text \<open>
  Mounted sysfs with one entry that supports 4 virtual functions and has none configured.
\<close>

definition host_unconfigured :: backend where
  "host_unconfigured =
    host [(''/hostsys/class/net/eth0/device/sriov_totalvfs'', [CHR ''4'', CHR 0x0A]),
          (''/hostsys/class/net/eth0/device/sriov_numvfs'', [CHR ''0'', CHR 0x0A])]
         [(''/hostsys/class/net'', [''eth0''])] []"

text \<open>Mounted sysfs with two configured entries and one without the attribute.\<close>

definition host_mounted :: backend where
  "host_mounted =
    host [(''/hostsys/class/net/eth0/device/sriov_numvfs'', [CHR ''2'', CHR 0x0A]),
          (''/hostsys/class/net/eth1/device/sriov_numvfs'', [CHR ''3'', CHR 0x0A])]
         [(''/hostsys/class/net'', [''eth0'', ''eth1'', ''lo''])] []"

text \<open>Mounted sysfs where one attribute reads \<^verbatim>\<open>-4\<close> and another reads \<^verbatim>\<open>3\<close>.\<close>

definition host_neg :: backend where
  "host_neg =
    host [(''/hostsys/class/net/eth0/device/sriov_numvfs'', [CHR ''-'', CHR ''4'', CHR 0x0A]),
          (''/hostsys/class/net/eth1/device/sriov_numvfs'', [CHR ''3'', CHR 0x0A])]
         [(''/hostsys/class/net'', [''eth0'', ''eth1''])] []"

text \<open>Hosts for the power-state source: the flag file holds 0, holds 1, is empty, is absent.\<close>

definition host_turbo :: backend where
  "host_turbo = host [(''/sys/devices/system/cpu/intel_pstate/no_turbo'', [CHR ''0'', CHR 0x0A])] [] []"

definition host_no_turbo :: backend where
  "host_no_turbo = host [(''/sys/devices/system/cpu/intel_pstate/no_turbo'', [CHR ''1'', CHR 0x0A])] [] []"

definition host_empty_flag :: backend where
  "host_empty_flag = host [(''/sys/devices/system/cpu/intel_pstate/no_turbo'', [])] [] []"

definition host_no_pstate :: backend where
  "host_no_pstate = host [] [] []"

text \<open>
  Hosts for the RDT source: monitoring and L2 allocation detected but not L3 allocation;
  and a host whose monitoring helper never exits.
\<close>

definition host_rdt :: backend where
  "host_rdt =
    (host [] [] [])\<lparr>cmd_Run := (\<lambda>cmd. if cmd = helper_cmd ''l3-alloc-discovery''
                                       then RunError ''exit status 1'' else ExitZero)\<rparr>"

definition host_hung :: backend where
  "host_hung =
    (host [] [] [])\<lparr>cmd_Run := (\<lambda>cmd. if cmd = helper_cmd ''mon-discovery''
                                       then NeverExits else ExitZero)\<rparr>"

section \<open>Properties\<close>

subsection \<open>Library facts\<close>

lemma TrimSpace_Nil: "TrimSpace [] = []"
  by code_simp

lemma Atoi_Nil: "Atoi [] = None"
  by (simp add: Atoi_def)

text \<open>
  An attribute that cannot be read, or that is empty, parses to nothing; so does one
  whose trimmed content \<open>Atoi\<close> rejects.
\<close>

lemma read_int_failures:
  "ioutil_ReadFile b path = Inl err \<Longrightarrow> read_int b path = None"
  "ioutil_ReadFile b path = Inr [] \<Longrightarrow> read_int b path = None"
  "ioutil_ReadFile b path = Inr bytes \<Longrightarrow> Atoi (TrimSpace bytes) = None \<Longrightarrow> read_int b path = None"
  by (simp_all add: read_int_def TrimSpace_Nil Atoi_Nil)

lemma wrap_int_idem: "wrap_int (wrap_int x) = wrap_int x"
  by (simp add: wrap_int_def)

lemma wrap_int_add_left: "wrap_int (wrap_int a + b) = wrap_int (a + b)"
proof -
  define H :: int where "H = 2 ^ (intSize - 1)"
  define M :: int where "M = 2 ^ intSize"
  have w: "\<And>x. wrap_int x = (x + H) mod M - H"
    by (simp add: wrap_int_def H_def M_def)
  have "wrap_int a + b + H = (a + H) mod M + b"
    by (simp add: w)
  then have "(wrap_int a + b + H) mod M = ((a + H) mod M + b) mod M"
    by (simp only:)
  also have "\<dots> = (a + H + b) mod M"
    by (rule mod_add_left_eq)
  also have "a + H + b = a + b + H"
    by simp
  finally show ?thesis
    by (simp only: w)
qed

lemma wrap_int_in_range:
  "- (2 ^ 63) \<le> x \<Longrightarrow> x < 2 ^ 63 \<Longrightarrow> wrap_int x = x"
  by (simp add: wrap_int_def intSize_def)

lemma wrap_int_0: "wrap_int 0 = 0"
  by (simp add: wrap_int_def intSize_def)

text \<open>
  The test on the rendered flags selects the interfaces whose \<^verbatim>\<open>FlagUp\<close> bit (1) is
  set and whose \<^verbatim>\<open>FlagLoopback\<close> bit (4) is not.
\<close>

lemma selected_flags:
  "selected i \<longleftrightarrow> Flags i AND 1 \<noteq> 0 \<and> Flags i AND 4 = 0"
  by (cases "Flags i AND 1 = 0"; cases "Flags i AND 2 = 0"; cases "Flags i AND 4 = 0";
      cases "Flags i AND 8 = 0"; cases "Flags i AND 16 = 0"; cases "Flags i AND 32 = 0")
     (simp_all add: selected_def Flags_String_def flagNames_def)

subsection \<open>The direct-access loop\<close>

lemma network_body_features:
  "fst (network_body b i fs) = fs @ tokens b i"
  by (simp add: network_body_def tokens_def capable_def configured_def selected_def
      positive_def read_int_def totalVfsPath_def numVfsPath_def Let_def
      split: sum.splits option.splits)

lemma network_body_ctl:
  "fst (snd (network_body b i fs)) = (if configured b i then Break else Continue)"
  by (auto simp: network_body_def tokens_def capable_def configured_def selected_def
      positive_def read_int_def totalVfsPath_def numVfsPath_def Let_def
      split: sum.splits option.splits)

lemma network_body_events:
  "snd (snd (network_body b i fs)) = snd (snd (network_body b i []))"
  by (simp add: network_body_def Let_def split: sum.splits option.splits)

lemma network_body_eq:
  "network_body b i fs =
     (fs @ tokens b i, if configured b i then Break else Continue, snd (snd (network_body b i [])))"
  using network_body_features [of b i fs] network_body_ctl [of b i fs]
    network_body_events [of b i fs]
  by (cases "network_body b i fs") simp

text \<open>
  The loop runs its body on exactly the \<open>examined\<close> interfaces: its features and its
  events are those of these iterations, in order.
\<close>

lemma network_loop_eq:
  "network_loop b ifs fs =
     (fs @ concat (map (tokens b) (examined b ifs)),
      concat (map (\<lambda>i. snd (snd (network_body b i []))) (examined b ifs)))"
proof (induction ifs arbitrary: fs)
  case Nil
  show ?case by simp
next
  case (Cons i rest)
  show ?case
    by (simp add: network_body_eq [of b i fs] Cons.IH)
qed

lemma network_Discover_eq:
  "net_Interfaces b = Inr ifs \<Longrightarrow>
   network_Discover b =
     (Features (concat (map (tokens b) (examined b ifs))),
      NetInterfaces # concat (map (\<lambda>i. snd (snd (network_body b i []))) (examined b ifs)))"
  by (simp add: network_Discover_def network_loop_eq)

lemma examined_append:
  "\<forall>j \<in> set pre. \<not> configured b j \<Longrightarrow> examined b (pre @ rest) = pre @ examined b rest"
  by (induction pre) simp_all

lemma examined_skip:
  "\<not> configured b i \<Longrightarrow> tokens b i = [] \<Longrightarrow>
   concat (map (tokens b) (examined b (pre @ i # post)))
     = concat (map (tokens b) (examined b (pre @ post)))"
  by (induction pre) simp_all

lemma count_sriov:
  "count_list (concat (map (tokens b) ifs)) ''sriov'' = length (filter (capable b) ifs)"
  by (induction ifs) (simp_all add: tokens_def)

lemma count_configured:
  "count_list (concat (map (tokens b) ifs)) ''sriov-configured''
     = length (filter (configured b) ifs)"
  by (induction ifs) (simp_all add: tokens_def configured_def)

lemma examined_configured_le:
  "length (filter (configured b) (examined b ifs)) \<le> 1"
  by (induction ifs) simp_all

text \<open>The loop does not consult the interface table again.\<close>

lemma read_int_ifaces [simp]:
  "read_int (b\<lparr>net_Interfaces := x\<rparr>) path = read_int b path"
  by (simp add: read_int_def)

lemma configured_ifaces [simp]:
  "configured (b\<lparr>net_Interfaces := x\<rparr>) = configured b"
  by (rule ext) (simp add: configured_def capable_def)

lemma tokens_ifaces [simp]:
  "tokens (b\<lparr>net_Interfaces := x\<rparr>) = tokens b"
  by (rule ext) (simp add: tokens_def capable_def)

lemma examined_ifaces [simp]:
  "examined (b\<lparr>net_Interfaces := x\<rparr>) ifs = examined b ifs"
  by (induction ifs) simp_all

lemma network_body_ifaces [simp]:
  "network_body (b\<lparr>net_Interfaces := x\<rparr>) i fs = network_body b i fs"
  by (simp add: network_body_def Let_def cong: sum.case_cong option.case_cong if_cong)

subsection \<open>The mounted-sysfs loop\<close>

lemma netid_body_total:
  "fst (netid_body b name t) =
     (case read_int b (hostsys_numvfs name) of None \<Rightarrow> t | Some n \<Rightarrow> int_add t n)"
  by (auto simp: netid_body_def read_int_def hostsys_numvfs_def Let_def TrimSpace_Nil Atoi_Nil
      split: sum.splits option.splits)

lemma netid_loop_Cons:
  "fst (netid_loop b (name # rest) t) = fst (netid_loop b rest (fst (netid_body b name t)))"
  by (cases "netid_body b name t"; cases "netid_loop b rest (fst (netid_body b name t))") simp

lemma netid_loop_total:
  "wrap_int t = t \<Longrightarrow>
   fst (netid_loop b names t) = wrap_int (t + sum_list (numvfs_values b names))"
proof (induction names arbitrary: t)
  case Nil
  then show ?case by (simp add: numvfs_values_def)
next
  case (Cons name rest)
  show ?case
  proof (cases "read_int b (hostsys_numvfs name)")
    case None
    then have "fst (netid_body b name t) = t"
      by (simp add: netid_body_total)
    with None Cons.IH [OF Cons.prems] show ?thesis
      by (simp add: netid_loop_Cons numvfs_values_def del: netid_loop.simps)
  next
    case (Some n)
    then have body: "fst (netid_body b name t) = int_add t n"
      by (simp add: netid_body_total)
    have "fst (netid_loop b rest (int_add t n))
          = wrap_int (int_add t n + sum_list (numvfs_values b rest))"
      by (rule Cons.IH) (simp add: int_add_def wrap_int_idem)
    also have "\<dots> = wrap_int (t + n + sum_list (numvfs_values b rest))"
      by (simp add: int_add_def wrap_int_add_left)
    finally show ?thesis
      using Some body
      by (simp add: netid_loop_Cons numvfs_values_def add.assoc del: netid_loop.simps)
  qed
qed

lemma netid_loop_grand_total:
  "fst (netid_loop b names 0) = grand_total b names"
  using netid_loop_total [of 0 b names] by (simp add: grand_total_def wrap_int_0)

lemma netid_Discover_ok:
  "ioutil_ReadDir b hostsys_net = Inr names \<Longrightarrow>
   fst (netid_Discover b) = Features (if 0 < grand_total b names then [''SRIOV''] else [])"
  using netid_loop_grand_total [of b names]
  by (cases "netid_loop b names 0") (simp add: netid_Discover_def)

lemma numvfs_values_skip:
  "read_int b (hostsys_numvfs name) = None \<Longrightarrow>
   numvfs_values b (pre @ name # post) = numvfs_values b (pre @ post)"
  by (simp add: numvfs_values_def map_filter_def)

lemma grand_total_ReadDir [simp]:
  "grand_total (b\<lparr>ioutil_ReadDir := d\<rparr>) names = grand_total b names"
  by (simp add: grand_total_def numvfs_values_def read_int_def)

subsection \<open>The state transformers and the functions of the backend\<close>

text \<open>
  Each method, run in a world, returns what the corresponding function of the backend
  returns and appends that function's events to the history. These facts are about the
  methods as written above: a method that consulted the history, or kept something from
  one call to the next, would not satisfy them.
\<close>

lemma cpuidSource_Discover_eq:
  "cpuidSource_Discover w
     = (fst (cpuid_Discover (fst w)), (fst w, snd w @ snd (cpuid_Discover (fst w))))"
  by (simp add: cpuidSource_Discover_def cpuid_Discover_def io_Features_Strings_def)

lemma rdtSource_check_eq:
  "rdtSource_check helper msg feature features w
     = (fst (rdt_check (fst w) helper msg feature features),
        (fst w, snd w @ snd (rdt_check (fst w) helper msg feature features)))"
  by (cases "cmd_Run (fst w) (helper_cmd helper)")
     (simp_all add: rdtSource_check_def rdt_check_def io_Run_def stderrLogger_Printf_def)

lemma rdtSource_Discover_eq:
  "rdtSource_Discover w
     = (fst (rdt_Discover (fst w)), (fst w, snd w @ snd (rdt_Discover (fst w))))"
  by (simp add: rdtSource_Discover_def rdt_Discover_def rdtSource_check_eq
      split: prod.splits option.splits)

lemma pstateSource_Discover_eq:
  "pstateSource_Discover w
     = (fst (pstate_Discover (fst w)), (fst w, snd w @ snd (pstate_Discover (fst w))))"
  by (simp add: pstateSource_Discover_def pstate_Discover_def io_ReadFile_def
      split: sum.splits list.splits)

lemma networkSource_body_eq:
  "networkSource_body i fs w
     = ((fst (network_body (fst w) i fs), fst (snd (network_body (fst w) i fs))),
        (fst w, snd w @ snd (snd (network_body (fst w) i fs))))"
proof -
  define m1 where "m1 = ''SR-IOV not supported for network interface: %s: %s''"
  define m2 where "m2 = ''Error in obtaining maximum supported number of virtual functions for network interface: %s: %s''"
  define m3 where "m3 = ''SR-IOV capability is detected on the network interface: %s''"
  define m4 where "m4 = ''%d maximum supported number of virtual functions on network interface: %s''"
  define m5 where "m5 = ''SR-IOV not configured for network interface: %s: %s''"
  define m6 where "m6 = ''Error in obtaining the configured number of virtual functions for network interface: %s: %s''"
  define m7 where "m7 = ''%d virtual functions configured on network interface: %s''"
  define m8 where "m8 = ''SR-IOV not configured on network interface: %s''"
  define p1 where "p1 = ''/sys/class/net/''"
  define p2 where "p2 = ''/device/sriov_totalvfs''"
  define p3 where "p3 = ''/device/sriov_numvfs''"
  show ?thesis
    unfolding networkSource_body_def network_body_def
      m1_def [symmetric] m2_def [symmetric] m3_def [symmetric] m4_def [symmetric]
      m5_def [symmetric] m6_def [symmetric] m7_def [symmetric] m8_def [symmetric]
      p1_def [symmetric] p2_def [symmetric] p3_def [symmetric]
    by (simp add: io_ReadFile_def stderrLogger_Printf_def stdoutLogger_Printf_def Let_def
        split: sum.splits option.splits)
qed

lemma networkSource_loop_eq:
  "networkSource_loop ifs fs w
     = (fst (network_loop (fst w) ifs fs), (fst w, snd w @ snd (network_loop (fst w) ifs fs)))"
proof (induction ifs arbitrary: fs w)
  case Nil
  show ?case by simp
next
  case (Cons i rest)
  show ?case
    by (cases "network_body (fst w) i fs" rule: prod_cases3)
       (simp add: networkSource_body_eq Cons.IH split: ctl.splits prod.splits)
qed

lemma networkSource_Discover_eq:
  "networkSource_Discover w
     = (fst (network_Discover (fst w)), (fst w, snd w @ snd (network_Discover (fst w))))"
  by (simp add: networkSource_Discover_def network_Discover_def io_Interfaces_def
      networkSource_loop_eq split: sum.splits prod.splits)

lemma netidSource_body_eq:
  "netidSource_body name t w
     = (fst (netid_body (fst w) name t), (fst w, snd w @ snd (netid_body (fst w) name t)))"
  by (simp add: netidSource_body_def netid_body_def io_ReadFile_def Let_def
      split: sum.splits option.splits)

lemma netidSource_loop_eq:
  "netidSource_loop names t w
     = (fst (netid_loop (fst w) names t), (fst w, snd w @ snd (netid_loop (fst w) names t)))"
proof (induction names arbitrary: t w)
  case Nil
  show ?case by simp
next
  case (Cons name rest)
  show ?case
    by (simp add: netidSource_body_eq Cons.IH split: prod.splits)
qed

lemma netidSource_Discover_eq:
  "netidSource_Discover w
     = (fst (netid_Discover (fst w)), (fst w, snd w @ snd (netid_Discover (fst w))))"
  by (simp add: netidSource_Discover_def netid_Discover_def io_ReadDir_def
      netidSource_loop_eq split: sum.splits prod.splits)

lemma Discover_eq:
  "Discover s w = (fst (probe s (fst w)), (fst w, snd w @ snd (probe s (fst w))))"
  by (cases s)
     (simp_all add: cpuidSource_Discover_eq rdtSource_Discover_eq pstateSource_Discover_eq
        networkSource_Discover_eq netidSource_Discover_eq)

subsection \<open>The events of the sources\<close>

lemma netid_body_events: "snd (netid_body b name t) = [ReadFile (hostsys_numvfs name)]"
  by (simp add: netid_body_def hostsys_numvfs_def Let_def split: sum.splits option.splits)

lemma netid_loop_events:
  "snd (netid_loop b names t) = map (\<lambda>name. ReadFile (hostsys_numvfs name)) names"
proof (induction names arbitrary: t)
  case Nil
  show ?case by simp
next
  case (Cons name rest)
  show ?case
    using netid_body_events [of b name t] Cons.IH [of "fst (netid_body b name t)"]
    by (cases "netid_body b name t"; cases "netid_loop b rest (fst (netid_body b name t))") simp
qed

lemma netid_Discover_events:
  "snd (netid_Discover b) =
     (case ioutil_ReadDir b hostsys_net of
        Inl err \<Rightarrow> [ReadDir hostsys_net]
      | Inr names \<Rightarrow> ReadDir hostsys_net # map (\<lambda>name. ReadFile (hostsys_numvfs name)) names)"
proof (cases "ioutil_ReadDir b hostsys_net")
  case (Inl err)
  then show ?thesis by (simp add: netid_Discover_def)
next
  case (Inr names)
  with netid_loop_events [of b names 0] show ?thesis
    by (cases "netid_loop b names 0") (simp add: netid_Discover_def)
qed

lemma hostsys_numvfs_not_total: "\<not> suffix ''sriov_totalvfs'' (hostsys_numvfs name)"
  by (simp add: hostsys_numvfs_def suffix_to_prefix)

lemma netid_reads_no_total:
  "ReadFile path \<in> set (snd (netid_Discover b)) \<Longrightarrow> \<not> suffix ''sriov_totalvfs'' path"
  by (cases "ioutil_ReadDir b hostsys_net")
     (auto simp: netid_Discover_events hostsys_numvfs_not_total)

lemma network_body_no_Run: "filter is_Run (snd (snd (network_body b i fs))) = []"
  by (simp add: network_body_def Let_def split: sum.splits option.splits)

lemma network_Discover_no_Run: "filter is_Run (snd (network_Discover b)) = []"
proof (cases "net_Interfaces b")
  case (Inl err)
  then show ?thesis by (simp add: network_Discover_def)
next
  case (Inr ifs)
  have "filter is_Run (concat (map (\<lambda>i. snd (snd (network_body b i []))) xs)) = []" for xs
    by (induction xs) (simp_all add: network_body_no_Run)
  with Inr show ?thesis
    by (simp add: network_Discover_eq)
qed

lemma netid_Discover_no_Run: "filter is_Run (snd (netid_Discover b)) = []"
  by (cases "ioutil_ReadDir b hostsys_net")
     (simp_all add: netid_Discover_events filter_empty_conv image_iff)

lemma pstate_Discover_no_Run: "filter is_Run (snd (pstate_Discover b)) = []"
  by (simp add: pstate_Discover_def split: sum.splits list.splits)

lemma cpuid_Discover_no_Run: "filter is_Run (snd (cpuid_Discover b)) = []"
  by (simp add: cpuid_Discover_def)

subsection \<open>Power-state source\<close>

text \<open>
  Claim C4. When the flag file is read and its first byte is \<^verbatim>\<open>0\<close>, the power-state
  source returns the list holding \<^verbatim>\<open>turbo\<close>; when the first byte is anything else it
  returns the empty list; when the file cannot be read it returns an error and no list.
\<close>

theorem pstate_first_byte:
  "(ioutil_ReadFile b no_turbo = Inr (CHR ''0'' # rest) \<longrightarrow>
      fst (pstate_Discover b) = Features [''turbo''])
   \<and> (ioutil_ReadFile b no_turbo = Inr (b0 # rest) \<and> b0 \<noteq> CHR ''0'' \<longrightarrow>
      fst (pstate_Discover b) = Features [])
   \<and> (ioutil_ReadFile b no_turbo = Inl err \<longrightarrow>
      fst (pstate_Discover b) = Error (''can't detect whether turbo boost is enabled: '' @ err))"
  by (simp add: pstate_Discover_def)

theorem pstate_first_byte_witness:
  "fst (pstate_Discover host_turbo) = Features [''turbo'']
   \<and> fst (pstate_Discover host_no_turbo) = Features []
   \<and> fst (pstate_Discover host_no_pstate) =
       Error (''can't detect whether turbo boost is enabled: ''
              @ ''open /sys/devices/system/cpu/intel_pstate/no_turbo: no such file or directory'')"
proof -
  have r0: "ioutil_ReadFile host_turbo no_turbo = Inr (CHR ''0'' # [CHR 0x0A])"
    by (simp add: host_turbo_def host_def no_turbo_def)
  have r1: "ioutil_ReadFile host_no_turbo no_turbo = Inr (CHR ''1'' # [CHR 0x0A])"
    and ne: "CHR ''1'' \<noteq> CHR ''0''"
    by (simp_all add: host_no_turbo_def host_def no_turbo_def)
  have r2: "ioutil_ReadFile host_no_pstate no_turbo =
      Inl ''open /sys/devices/system/cpu/intel_pstate/no_turbo: no such file or directory''"
    by (simp add: host_no_pstate_def host_def no_turbo_def)
  from r0 pstate_first_byte [of host_turbo "[CHR 0x0A]"]
  have a: "fst (pstate_Discover host_turbo) = Features [''turbo'']"
    by blast
  from r1 ne pstate_first_byte [of host_no_turbo "[CHR 0x0A]" "CHR ''1''"]
  have b: "fst (pstate_Discover host_no_turbo) = Features []"
    by blast
  from r2 pstate_first_byte [where b = host_no_pstate and err =
      "''open /sys/devices/system/cpu/intel_pstate/no_turbo: no such file or directory''"]
  have c: "fst (pstate_Discover host_no_pstate) =
       Error (''can't detect whether turbo boost is enabled: ''
              @ ''open /sys/devices/system/cpu/intel_pstate/no_turbo: no such file or directory'')"
    by blast
  from a b c show ?thesis by blast
qed

text \<open>
  Claim C9. When the flag file is read successfully but is empty, the power-state source
  returns nothing: indexing the first byte panics. A panic happens in this case only, so
  the source returns whenever a successful read yields at least one byte.
\<close>

theorem pstate_empty_file_panics:
  "(ioutil_ReadFile b no_turbo = Inr [] \<longrightarrow>
      fst (pstate_Discover b) = Panic ''index out of range'')
   \<and> ((\<exists>r. fst (pstate_Discover b) = Panic r) \<longleftrightarrow> ioutil_ReadFile b no_turbo = Inr [])"
  by (auto simp: pstate_Discover_def split: sum.splits list.splits)

theorem pstate_empty_file_panics_witness:
  "ioutil_ReadFile host_empty_flag no_turbo = Inr []
   \<and> fst (pstate_Discover host_empty_flag) = Panic ''index out of range''"
proof -
  have r: "ioutil_ReadFile host_empty_flag no_turbo = Inr []"
    by (simp add: host_empty_flag_def host_def no_turbo_def)
  with pstate_empty_file_panics [of host_empty_flag] show ?thesis
    by blast
qed

subsection \<open>RDT source\<close>

lemma rdt_helpers_exit:
  assumes "\<forall>h \<in> set (map fst rdt_helpers). cmd_Run b (helper_cmd h) \<noteq> NeverExits"
  shows "cmd_Run b (helper_cmd ''mon-discovery'') \<noteq> NeverExits"
    and "cmd_Run b (helper_cmd ''l3-alloc-discovery'') \<noteq> NeverExits"
    and "cmd_Run b (helper_cmd ''l2-alloc-discovery'') \<noteq> NeverExits"
  using assms by (simp_all add: rdt_helpers_def)

lemma rdt_features:
  assumes "\<forall>h \<in> set (map fst rdt_helpers). cmd_Run b (helper_cmd h) \<noteq> NeverExits"
  shows "fst (rdt_Discover b) =
           Features (map snd (filter (\<lambda>(h, f). cmd_Run b (helper_cmd h) = ExitZero) rdt_helpers))"
  using rdt_helpers_exit [OF assms]
  by (cases "cmd_Run b (helper_cmd ''mon-discovery'')";
      cases "cmd_Run b (helper_cmd ''l3-alloc-discovery'')";
      cases "cmd_Run b (helper_cmd ''l2-alloc-discovery'')")
     (simp_all add: rdt_Discover_def rdt_check_def rdt_helpers_def)

lemma rdt_runs:
  assumes "\<forall>h \<in> set (map fst rdt_helpers). cmd_Run b (helper_cmd h) \<noteq> NeverExits"
  shows "filter is_Run (snd (rdt_Discover b)) = map (\<lambda>(h, f). Run (helper_cmd h)) rdt_helpers"
  using rdt_helpers_exit [OF assms]
  by (cases "cmd_Run b (helper_cmd ''mon-discovery'')";
      cases "cmd_Run b (helper_cmd ''l3-alloc-discovery'')";
      cases "cmd_Run b (helper_cmd ''l2-alloc-discovery'')")
     (simp_all add: rdt_Discover_def rdt_check_def rdt_helpers_def)

lemma rdt_blocked:
  "fst (rdt_Discover b) = Blocked \<longleftrightarrow>
     (\<exists>h \<in> set (map fst rdt_helpers). cmd_Run b (helper_cmd h) = NeverExits)"
  by (cases "cmd_Run b (helper_cmd ''mon-discovery'')";
      cases "cmd_Run b (helper_cmd ''l3-alloc-discovery'')";
      cases "cmd_Run b (helper_cmd ''l2-alloc-discovery'')")
     (simp_all add: rdt_Discover_def rdt_check_def rdt_helpers_def)

lemma rdt_host_rdt_exits:
  "\<forall>h \<in> set (map fst rdt_helpers). cmd_Run host_rdt (helper_cmd h) \<noteq> NeverExits"
  by (simp add: host_rdt_def)

text \<open>
  Claim C5. Whatever the exit statuses of the three helpers, the RDT source returns a
  feature list and no error; the list holds exactly the features of the helpers that
  exited with status 0, in the fixed order RDTMON, RDTL3CA, RDTL2CA. When all three fail
  the list is empty, and all three helpers are run whichever of them fail.
\<close>

theorem rdt_features_of_zero_exits:
  assumes "\<forall>h \<in> set (map fst rdt_helpers). cmd_Run b (helper_cmd h) \<noteq> NeverExits"
  shows "\<exists>feats. fst (rdt_Discover b) = Features feats
      \<and> feats = map snd (filter (\<lambda>(h, f). cmd_Run b (helper_cmd h) = ExitZero) rdt_helpers)
      \<and> subseq feats [''RDTMON'', ''RDTL3CA'', ''RDTL2CA'']
      \<and> ((\<forall>h \<in> set (map fst rdt_helpers). cmd_Run b (helper_cmd h) \<noteq> ExitZero) \<longrightarrow> feats = [])
      \<and> filter is_Run (snd (rdt_Discover b)) =
          [Run (helper_cmd ''mon-discovery''), Run (helper_cmd ''l3-alloc-discovery''),
           Run (helper_cmd ''l2-alloc-discovery'')]"
proof -
  let ?feats = "map snd (filter (\<lambda>(h, f). cmd_Run b (helper_cmd h) = ExitZero) rdt_helpers)"
  have "subseq ?feats (map snd rdt_helpers)"
    by (intro subseq_map subseq_filter_left)
  then have sub: "subseq ?feats [''RDTMON'', ''RDTL3CA'', ''RDTL2CA'']"
    by (simp add: rdt_helpers_def)
  have none: "(\<forall>h \<in> set (map fst rdt_helpers). cmd_Run b (helper_cmd h) \<noteq> ExitZero) \<longrightarrow> ?feats = []"
    by (simp add: rdt_helpers_def)
  have runs: "filter is_Run (snd (rdt_Discover b)) =
          [Run (helper_cmd ''mon-discovery''), Run (helper_cmd ''l3-alloc-discovery''),
           Run (helper_cmd ''l2-alloc-discovery'')]"
    using rdt_runs [OF assms] by (simp add: rdt_helpers_def)
  from rdt_features [OF assms] sub none runs show ?thesis
    by blast
qed

theorem rdt_features_of_zero_exits_witness:
  "fst (rdt_Discover host_rdt) = Features [''RDTMON'', ''RDTL2CA'']"
proof -
  have neq: "helper_cmd ''mon-discovery'' \<noteq> helper_cmd ''l3-alloc-discovery''"
    "helper_cmd ''l2-alloc-discovery'' \<noteq> helper_cmd ''l3-alloc-discovery''"
    by (simp_all add: helper_cmd_def path_Join_def)
  from rdt_features_of_zero_exits [OF rdt_host_rdt_exits] neq show ?thesis
    by (auto simp: rdt_helpers_def host_rdt_def)
qed

text \<open>
  Claim C8, as the code has it. No source sets a timeout. The RDT source is the only one
  that starts external processes: it waits for each helper with \<^verbatim>\<open>cmd.Run\<close>, so a
  call of \<^verbatim>\<open>Discover\<close> does not return exactly when one of the three helpers never
  exits, and returns a feature list when all three exit. The CPUID, power-state and
  network sources start no process at all.
\<close>

theorem rdt_blocks_iff_helper_never_exits:
  "(fst (rdt_Discover b) = Blocked \<longleftrightarrow>
      (\<exists>h \<in> set (map fst rdt_helpers). cmd_Run b (helper_cmd h) = NeverExits))
   \<and> ((\<forall>h \<in> set (map fst rdt_helpers). cmd_Run b (helper_cmd h) \<noteq> NeverExits)
        \<longrightarrow> (\<exists>feats. fst (rdt_Discover b) = Features feats))
   \<and> filter is_Run (snd (cpuid_Discover b)) = []
   \<and> filter is_Run (snd (pstate_Discover b)) = []
   \<and> filter is_Run (snd (network_Discover b)) = []
   \<and> filter is_Run (snd (netid_Discover b)) = []"
  using rdt_blocked [of b] rdt_features [of b]
    cpuid_Discover_no_Run [of b] pstate_Discover_no_Run [of b]
    network_Discover_no_Run [of b] netid_Discover_no_Run [of b]
  by blast

theorem rdt_blocks_iff_helper_never_exits_witness:
  "cmd_Run host_hung (helper_cmd ''mon-discovery'') = NeverExits
   \<and> fst (rdt_Discover host_hung) = Blocked
   \<and> (\<exists>feats. fst (rdt_Discover host_rdt) = Features feats)"
proof -
  have h: "cmd_Run host_hung (helper_cmd ''mon-discovery'') = NeverExits"
    by (simp add: host_hung_def)
  then have "\<exists>h \<in> set (map fst rdt_helpers). cmd_Run host_hung (helper_cmd h) = NeverExits"
    by (simp add: rdt_helpers_def)
  with rdt_blocks_iff_helper_never_exits [of host_hung]
  have 1: "fst (rdt_Discover host_hung) = Blocked"
    by blast
  from rdt_blocks_iff_helper_never_exits [of host_rdt] rdt_host_rdt_exits
  have 2: "\<exists>feats. fst (rdt_Discover host_rdt) = Features feats"
    by blast
  from h 1 2 show ?thesis
    by blast
qed

text \<open>
  Claim C8, as stated, fails: on a host whose monitoring helper never exits the call does
  not return; the only event is the start of that helper.
\<close>

theorem rdt_no_timeout_counterexample:
  "rdt_Discover host_hung = (Blocked, [Run (helper_cmd ''mon-discovery'')])"
  by (simp add: rdt_Discover_def rdt_check_def host_hung_def)

subsection \<open>All sources\<close>

text \<open>
  Claim C7. For every source the outcome of \<^verbatim>\<open>Discover\<close> is determined by the
  backend: calls in two worlds with the same backend, whatever was done and logged
  before, return the same outcome. A call leaves the backend as it is, so a second call
  right after the first returns what the first returned.
\<close>

theorem Discover_deterministic:
  "(fst w' = fst w \<longrightarrow> fst (Discover s w') = fst (Discover s w))
   \<and> fst (snd (Discover s w)) = fst w
   \<and> fst (Discover s (snd (Discover s w))) = fst (Discover s w)"
  by (simp add: Discover_eq)

theorem Discover_deterministic_witness:
  "fst (Discover rdtSource (host_rdt, [])) = Features [''RDTMON'', ''RDTL2CA'']
   \<and> fst (Discover rdtSource (snd (Discover rdtSource (host_rdt, [])))) = Features [''RDTMON'', ''RDTL2CA'']
   \<and> fst (Discover rdtSource (host_rdt, [Stderr ''earlier line'' []])) = Features [''RDTMON'', ''RDTL2CA'']"
proof -
  have neq: "helper_cmd ''mon-discovery'' \<noteq> helper_cmd ''l3-alloc-discovery''"
    "helper_cmd ''l2-alloc-discovery'' \<noteq> helper_cmd ''l3-alloc-discovery''"
    by (simp_all add: helper_cmd_def path_Join_def)
  from rdt_features [OF rdt_host_rdt_exits] neq
  have "fst (rdt_Discover host_rdt) = Features [''RDTMON'', ''RDTL2CA'']"
    by (auto simp: rdt_helpers_def host_rdt_def)
  then have a: "fst (Discover rdtSource (host_rdt, [])) = Features [''RDTMON'', ''RDTL2CA'']"
    by (simp add: rdtSource_Discover_eq)
  have same: "fst (host_rdt, [Stderr ''earlier line'' []]) = fst (host_rdt, [])"
    by simp
  from Discover_deterministic [of "(host_rdt, [Stderr ''earlier line'' []])" "(host_rdt, [])" rdtSource]
    Discover_deterministic [of "(host_rdt, [])" "(host_rdt, [])" rdtSource]
    same a
  show ?thesis by metis
qed

subsection \<open>Network source, direct access\<close>

lemma host_ABC_ifaces: "net_Interfaces host_ABC = Inr [eth ''A'', eth ''B'', eth ''C'']"
  by (simp add: host_ABC_def host_def)

lemma host_ABC_examined:
  "examined host_ABC [eth ''A'', eth ''B'', eth ''C''] = [eth ''A'', eth ''B'', eth ''C'']"
  by code_simp

lemma host_ABC_capable:
  "filter (capable host_ABC) [eth ''A'', eth ''B'', eth ''C''] = [eth ''B'', eth ''C'']"
  by code_simp

lemma host_ABC_features:
  "fst (network_Discover host_ABC) = Features [''sriov'', ''sriov'', ''sriov-configured'']"
  by code_simp

lemma netid_Discover_cases:
  "fst (netid_Discover b) = Features feats \<Longrightarrow> feats = [] \<or> feats = [''SRIOV'']"
  by (cases "ioutil_ReadDir b hostsys_net") (auto simp: netid_Discover_def split: prod.splits)

lemma host_unconfigured_dir:
  "ioutil_ReadDir host_unconfigured hostsys_net = Inr [''eth0'']"
  by (simp add: host_unconfigured_def host_def hostsys_net_def)

text \<open>
  Claim C1, as the code has it. In the direct-access mode the result holds
  \<^verbatim>\<open>sriov\<close> once for each examined interface whose total-virtual-functions attribute
  parses to a positive value: it is present whenever there is such an interface, and it
  is repeated when there are several. The mounted-sysfs mode lists the directory and
  reads the \<^verbatim>\<open>sriov_numvfs\<close> attribute of each entry and nothing else, so no total
  attribute; it has no such feature: its result is empty or the single feature
  \<^verbatim>\<open>SRIOV\<close>.
\<close>

theorem network_sriov_per_capable_interface:
  "(net_Interfaces b = Inr ifs \<longrightarrow>
      (\<exists>feats. fst (network_Discover b) = Features feats
         \<and> count_list feats ''sriov'' = length (filter (capable b) (examined b ifs))
         \<and> ((\<exists>i \<in> set (examined b ifs). capable b i) \<longrightarrow> ''sriov'' \<in> set feats)))
   \<and> (fst (netid_Discover b) = Features feats' \<longrightarrow> feats' = [] \<or> feats' = [''SRIOV''])
   \<and> (ioutil_ReadDir b hostsys_net = Inr names \<longrightarrow>
        snd (netid_Discover b)
          = ReadDir hostsys_net # map (\<lambda>name. ReadFile (hostsys_numvfs name)) names)
   \<and> (ReadFile path \<in> set (snd (netid_Discover b)) \<longrightarrow> \<not> suffix ''sriov_totalvfs'' path)"
proof -
  have "count_list feats ''sriov'' = length (filter (capable b) (examined b ifs))
         \<and> ((\<exists>i \<in> set (examined b ifs). capable b i) \<longrightarrow> ''sriov'' \<in> set feats)"
    if feats: "feats = concat (map (tokens b) (examined b ifs))" for feats
  proof
    show c: "count_list feats ''sriov'' = length (filter (capable b) (examined b ifs))"
      by (simp only: feats count_sriov)
    show "(\<exists>i \<in> set (examined b ifs). capable b i) \<longrightarrow> ''sriov'' \<in> set feats"
    proof
      assume "\<exists>i \<in> set (examined b ifs). capable b i"
      then have "filter (capable b) (examined b ifs) \<noteq> []"
        by (simp add: filter_empty_conv)
      with c have "count_list feats ''sriov'' \<noteq> 0"
        by simp
      then show "''sriov'' \<in> set feats"
        by (simp only: count_list_0_iff) simp
    qed
  qed
  then have 1: "net_Interfaces b = Inr ifs \<longrightarrow>
      (\<exists>feats. fst (network_Discover b) = Features feats
         \<and> count_list feats ''sriov'' = length (filter (capable b) (examined b ifs))
         \<and> ((\<exists>i \<in> set (examined b ifs). capable b i) \<longrightarrow> ''sriov'' \<in> set feats))"
    by (auto simp: network_Discover_eq simp del: set_concat)
  have 2: "fst (netid_Discover b) = Features feats' \<longrightarrow> feats' = [] \<or> feats' = [''SRIOV'']"
    using netid_Discover_cases [of b feats'] by blast
  have 3: "ioutil_ReadDir b hostsys_net = Inr names \<longrightarrow>
        snd (netid_Discover b)
          = ReadDir hostsys_net # map (\<lambda>name. ReadFile (hostsys_numvfs name)) names"
    by (simp add: netid_Discover_events)
  have 4: "ReadFile path \<in> set (snd (netid_Discover b)) \<longrightarrow> \<not> suffix ''sriov_totalvfs'' path"
    using netid_reads_no_total [of path b] by blast
  from 1 2 3 4 show ?thesis
    by blast
qed

theorem network_sriov_per_capable_interface_witness:
  "(\<exists>feats. fst (network_Discover host_ABC) = Features feats
      \<and> count_list feats ''sriov'' = 2 \<and> ''sriov'' \<in> set feats)
   \<and> snd (netid_Discover host_unconfigured)
       = [ReadDir hostsys_net, ReadFile (hostsys_numvfs ''eth0'')]
   \<and> \<not> suffix ''sriov_totalvfs'' (hostsys_numvfs ''eth0'')"
proof -
  have cap: "capable host_ABC (eth ''B'')"
    by code_simp
  have "eth ''B'' \<in> set (examined host_ABC [eth ''A'', eth ''B'', eth ''C''])"
    by (simp only: host_ABC_examined) simp
  with cap have ex: "\<exists>i \<in> set (examined host_ABC [eth ''A'', eth ''B'', eth ''C'']). capable host_ABC i"
    by blast
  from network_sriov_per_capable_interface [of host_ABC "[eth ''A'', eth ''B'', eth ''C'']"]
    host_ABC_ifaces ex
  obtain feats where f: "fst (network_Discover host_ABC) = Features feats"
    and c: "count_list feats ''sriov''
             = length (filter (capable host_ABC) (examined host_ABC [eth ''A'', eth ''B'', eth ''C'']))"
    and m: "''sriov'' \<in> set feats"
    by blast
  have "length (filter (capable host_ABC) (examined host_ABC [eth ''A'', eth ''B'', eth ''C''])) = 2"
    by (simp only: host_ABC_examined host_ABC_capable) simp
  with f c m have 1: "\<exists>feats. fst (network_Discover host_ABC) = Features feats
      \<and> count_list feats ''sriov'' = 2 \<and> ''sriov'' \<in> set feats"
    by auto
  from network_sriov_per_capable_interface [where b = host_unconfigured and names = "[''eth0'']"]
    host_unconfigured_dir
  have "snd (netid_Discover host_unconfigured)
       = ReadDir hostsys_net # map (\<lambda>name. ReadFile (hostsys_numvfs name)) [''eth0'']"
    by blast
  then have 2: "snd (netid_Discover host_unconfigured)
       = [ReadDir hostsys_net, ReadFile (hostsys_numvfs ''eth0'')]"
    by simp
  then have "ReadFile (hostsys_numvfs ''eth0'') \<in> set (snd (netid_Discover host_unconfigured))"
    by simp
  with network_sriov_per_capable_interface [where b = host_unconfigured
      and path = "hostsys_numvfs ''eth0''"]
  have 3: "\<not> suffix ''sriov_totalvfs'' (hostsys_numvfs ''eth0'')"
    by blast
  from 1 2 3 show ?thesis
    by blast
qed

text \<open>
  Claim C1, as stated, fails. On the example of the specification (A with total 0,
  B with total 4, C with total 8 and 2 configured) the direct-access mode returns
  \<^verbatim>\<open>sriov\<close> twice; and the mounted-sysfs mode returns the empty list for an entry
  whose total attribute reads 4.
\<close>

theorem network_sriov_once_counterexample:
  "capable host_ABC (eth ''B'')
   \<and> fst (network_Discover host_ABC) = Features [''sriov'', ''sriov'', ''sriov-configured'']
   \<and> count_list [''sriov'', ''sriov'', ''sriov-configured''] ''sriov'' = 2
   \<and> read_int host_unconfigured ''/hostsys/class/net/eth0/device/sriov_totalvfs'' = Some 4
   \<and> fst (netid_Discover host_unconfigured) = Features []"
proof -
  have a: "capable host_ABC (eth ''B'')"
    by code_simp
  have b: "fst (network_Discover host_ABC) = Features [''sriov'', ''sriov'', ''sriov-configured'']"
    by code_simp
  have c: "count_list [''sriov'', ''sriov'', ''sriov-configured''] ''sriov'' = 2"
    by simp
  have d: "read_int host_unconfigured ''/hostsys/class/net/eth0/device/sriov_totalvfs'' = Some 4"
    by code_simp
  have e: "fst (netid_Discover host_unconfigured) = Features []"
    by code_simp
  from a b c d e show ?thesis by blast
qed

lemma host_ACB_ifaces: "net_Interfaces host_ACB = Inr ([eth ''A''] @ eth ''C'' # [eth ''B''])"
  by (simp add: host_ACB_def)

lemma host_ACB_configured:
  "\<not> configured host_ACB (eth ''A'') \<and> configured host_ACB (eth ''C'')"
  by code_simp

text \<open>
  Claim C3. In the direct-access mode the scan stops at the first interface whose
  configured-virtual-functions attribute is reached and parses to a positive value:
  \<^verbatim>\<open>sriov-configured\<close> is appended for it, after the features of the interfaces before
  it; the interfaces after it are not examined, the call does on them nothing at all; and
  \<^verbatim>\<open>sriov-configured\<close> occurs at most once in every result.
\<close>

theorem network_stops_at_first_configured:
  "(net_Interfaces b = Inr (pre @ i # post) \<and> (\<forall>j \<in> set pre. \<not> configured b j) \<and> configured b i
      \<longrightarrow> fst (network_Discover b)
            = Features (concat (map (tokens b) pre) @ [''sriov'', ''sriov-configured''])
          \<and> examined b (pre @ i # post) = pre @ [i]
          \<and> network_Discover b = network_Discover (b\<lparr>net_Interfaces := Inr (pre @ [i])\<rparr>))
   \<and> (fst (network_Discover b) = Features feats \<longrightarrow> count_list feats ''sriov-configured'' \<le> 1)"
proof
  show "net_Interfaces b = Inr (pre @ i # post) \<and> (\<forall>j \<in> set pre. \<not> configured b j) \<and> configured b i
      \<longrightarrow> fst (network_Discover b)
            = Features (concat (map (tokens b) pre) @ [''sriov'', ''sriov-configured''])
          \<and> examined b (pre @ i # post) = pre @ [i]
          \<and> network_Discover b = network_Discover (b\<lparr>net_Interfaces := Inr (pre @ [i])\<rparr>)"
  proof
    assume h: "net_Interfaces b = Inr (pre @ i # post) \<and> (\<forall>j \<in> set pre. \<not> configured b j) \<and> configured b i"
    then have ex: "examined b (pre @ i # post) = pre @ [i]"
      and ex': "examined b (pre @ [i]) = pre @ [i]"
      by (simp_all add: examined_append)
    from h have tok: "tokens b i = [''sriov'', ''sriov-configured'']"
      by (simp add: tokens_def configured_def)
    have upd: "net_Interfaces (b\<lparr>net_Interfaces := Inr (pre @ [i])\<rparr>) = Inr (pre @ [i])"
      by simp
    from h have 1: "fst (network_Discover b)
            = Features (concat (map (tokens b) pre) @ [''sriov'', ''sriov-configured''])"
      by (simp add: network_Discover_eq ex tok)
    from h have 2: "network_Discover b = network_Discover (b\<lparr>net_Interfaces := Inr (pre @ [i])\<rparr>)"
      by (simp add: network_Discover_eq [of b] network_Discover_eq [OF upd] ex ex')
    from 1 ex 2 show "fst (network_Discover b)
            = Features (concat (map (tokens b) pre) @ [''sriov'', ''sriov-configured''])
          \<and> examined b (pre @ i # post) = pre @ [i]
          \<and> network_Discover b = network_Discover (b\<lparr>net_Interfaces := Inr (pre @ [i])\<rparr>)"
      by blast
  qed
next
  show "fst (network_Discover b) = Features feats \<longrightarrow> count_list feats ''sriov-configured'' \<le> 1"
  proof (cases "net_Interfaces b")
    case (Inl err)
    then show ?thesis by (simp add: network_Discover_def)
  next
    case (Inr ifs)
    then show ?thesis
      using examined_configured_le [of b ifs]
      by (auto simp: network_Discover_eq count_configured)
  qed
qed

theorem network_stops_at_first_configured_witness:
  "fst (network_Discover host_ACB) = Features [''sriov'', ''sriov-configured'']
   \<and> examined host_ACB [eth ''A'', eth ''C'', eth ''B''] = [eth ''A'', eth ''C'']
   \<and> network_Discover host_ACB
       = network_Discover (host_ACB\<lparr>net_Interfaces := Inr [eth ''A'', eth ''C'']\<rparr>)"
proof -
  have tokA: "tokens host_ACB (eth ''A'') = []"
    by code_simp
  from host_ACB_configured have pre: "\<forall>j \<in> set [eth ''A'']. \<not> configured host_ACB j"
    by simp
  from host_ACB_ifaces pre host_ACB_configured
  have h: "net_Interfaces host_ACB = Inr ([eth ''A''] @ eth ''C'' # [eth ''B''])
      \<and> (\<forall>j \<in> set [eth ''A'']. \<not> configured host_ACB j) \<and> configured host_ACB (eth ''C'')"
    by blast
  from network_stops_at_first_configured [of host_ACB "[eth ''A'']" "eth ''C''" "[eth ''B'']"] h
  have main: "fst (network_Discover host_ACB)
            = Features (concat (map (tokens host_ACB) [eth ''A'']) @ [''sriov'', ''sriov-configured''])
          \<and> examined host_ACB ([eth ''A''] @ eth ''C'' # [eth ''B'']) = [eth ''A''] @ [eth ''C'']
          \<and> network_Discover host_ACB
              = network_Discover (host_ACB\<lparr>net_Interfaces := Inr ([eth ''A''] @ [eth ''C''])\<rparr>)"
    by blast
  have e1: "concat (map (tokens host_ACB) [eth ''A'']) @ [''sriov'', ''sriov-configured'']
      = [''sriov'', ''sriov-configured'']"
    by (simp add: tokA)
  have e2: "[eth ''A''] @ eth ''C'' # [eth ''B''] = [eth ''A'', eth ''C'', eth ''B'']"
    and e3: "[eth ''A''] @ [eth ''C''] = [eth ''A'', eth ''C'']"
    by simp_all
  show ?thesis
    using main unfolding e1 e2 e3 .
qed


subsection \<open>Network source, mounted sysfs\<close>

lemma host_mounted_dir:
  "ioutil_ReadDir host_mounted hostsys_net = Inr [''eth0'', ''eth1'', ''lo'']"
  by (simp add: host_mounted_def host_def hostsys_net_def)

lemma host_mounted_values:
  "numvfs_values host_mounted [''eth0'', ''eth1'', ''lo''] = [2, 3]"
  by code_simp

text \<open>
  Claim C2. In the mounted-sysfs mode the loop accumulates the total of the values that
  the \<^verbatim>\<open>sriov_numvfs\<close> attributes of all directory entries parse to, and the result is the
  single feature \<^verbatim>\<open>SRIOV\<close> when that total is positive and the empty list otherwise.
  The total is an \<^verbatim>\<open>int\<close>; it is the exact sum whenever the sum fits the type.
\<close>

theorem netid_SRIOV_iff_total_positive:
  assumes "ioutil_ReadDir b hostsys_net = Inr names"
  shows "fst (netid_loop b names 0) = grand_total b names
    \<and> fst (netid_Discover b) = Features (if 0 < grand_total b names then [''SRIOV''] else [])
    \<and> (- (2 ^ 63) \<le> sum_list (numvfs_values b names) \<and> sum_list (numvfs_values b names) < 2 ^ 63
         \<longrightarrow> grand_total b names = sum_list (numvfs_values b names))"
  using netid_loop_grand_total [of b names] netid_Discover_ok [OF assms]
    wrap_int_in_range [of "sum_list (numvfs_values b names)"]
  by (simp add: grand_total_def)

theorem netid_SRIOV_iff_total_positive_witness:
  "grand_total host_mounted [''eth0'', ''eth1'', ''lo''] = 5
   \<and> fst (netid_Discover host_mounted) = Features [''SRIOV'']"
proof -
  have sum: "sum_list (numvfs_values host_mounted [''eth0'', ''eth1'', ''lo'']) = 5"
    by (simp add: host_mounted_values)
  from netid_SRIOV_iff_total_positive [OF host_mounted_dir] sum show ?thesis
    by simp
qed

text \<open>
  Claim C10. In the mounted-sysfs mode a value that parses as a negative integer is
  added to the running total like any other. On a host with one attribute reading
  \<^verbatim>\<open>-4\<close> and another reading \<^verbatim>\<open>3\<close> the total is \<^verbatim>\<open>-1\<close> and the result is empty,
  although one entry has a positive configured count.
\<close>

theorem netid_negative_value_is_added:
  "(read_int b (hostsys_numvfs name) = Some n \<and> n < 0 \<longrightarrow>
      fst (netid_body b name t) = int_add t n)
   \<and> ioutil_ReadDir host_neg hostsys_net = Inr [''eth0'', ''eth1'']
   \<and> read_int host_neg (hostsys_numvfs ''eth0'') = Some (- 4)
   \<and> read_int host_neg (hostsys_numvfs ''eth1'') = Some 3
   \<and> grand_total host_neg [''eth0'', ''eth1''] = - 1
   \<and> fst (netid_Discover host_neg) = Features []"
proof -
  have a: "read_int b (hostsys_numvfs name) = Some n \<and> n < 0 \<longrightarrow>
      fst (netid_body b name t) = int_add t n"
    by (simp add: netid_body_total)
  have b: "ioutil_ReadDir host_neg hostsys_net = Inr [''eth0'', ''eth1'']"
    by (simp add: host_neg_def host_def hostsys_net_def)
  have c: "read_int host_neg (hostsys_numvfs ''eth0'') = Some (- 4)"
    by code_simp
  have d: "read_int host_neg (hostsys_numvfs ''eth1'') = Some 3"
    by code_simp
  have e: "grand_total host_neg [''eth0'', ''eth1''] = - 1"
    by code_simp
  have f: "fst (netid_Discover host_neg) = Features []"
    by code_simp
  from a b c d e f show ?thesis by blast
qed

theorem netid_negative_value_is_added_witness:
  "fst (netid_body host_neg ''eth0'' 0) = - 4"
proof -
  have "read_int host_neg (hostsys_numvfs ''eth0'') = Some (- 4) \<and> (- 4 :: int) < 0"
    using netid_negative_value_is_added [of host_neg "''eth0''" 0 0] by simp
  with netid_negative_value_is_added [of host_neg "''eth0''" "- 4" 0]
  have "fst (netid_body host_neg ''eth0'' 0) = int_add 0 (- 4)"
    by blast
  then show ?thesis
    by (simp add: int_add_def wrap_int_def intSize_def)
qed

subsection \<open>Failures of the network source\<close>

lemma network_Discover_Error:
  "(\<exists>e. fst (network_Discover b) = Error e) \<longleftrightarrow> (\<exists>m. net_Interfaces b = Inl m)"
  by (cases "net_Interfaces b") (simp_all add: network_Discover_eq, simp add: network_Discover_def)

lemma netid_Discover_Error:
  "(\<exists>e. fst (netid_Discover b) = Error e) \<longleftrightarrow> (\<exists>m. ioutil_ReadDir b hostsys_net = Inl m)"
  by (cases "ioutil_ReadDir b hostsys_net") (simp_all add: netid_Discover_ok, simp add: netid_Discover_def)

lemma network_skip_total:
  assumes "net_Interfaces b = Inr (pre @ i # post)" "selected i" "read_int b (totalVfsPath i) = None"
  shows "fst (network_Discover b) = fst (network_Discover (b\<lparr>net_Interfaces := Inr (pre @ post)\<rparr>))"
proof -
  from assms have nc: "\<not> configured b i" and tok: "tokens b i = []"
    by (simp_all add: configured_def capable_def tokens_def positive_def)
  have upd: "net_Interfaces (b\<lparr>net_Interfaces := Inr (pre @ post)\<rparr>) = Inr (pre @ post)"
    by simp
  show ?thesis
    by (simp add: network_Discover_eq [OF assms(1)] network_Discover_eq [OF upd]
        examined_skip [OF nc tok])
qed

lemma network_skip_num:
  assumes "net_Interfaces b = Inr (pre @ i # post)" "\<forall>j \<in> set pre. \<not> configured b j"
    "capable b i" "read_int b (numVfsPath i) = None"
  shows "fst (network_Discover b)
           = Features (concat (map (tokens b) pre) @ [''sriov'']
                       @ concat (map (tokens b) (examined b post)))"
    and "examined b (pre @ i # post) = pre @ i # examined b post"
proof -
  from assms have nc: "\<not> configured b i" and tok: "tokens b i = [''sriov'']"
    by (simp_all add: configured_def tokens_def positive_def)
  from nc assms(2) show ex: "examined b (pre @ i # post) = pre @ i # examined b post"
    by (simp add: examined_append)
  show "fst (network_Discover b)
           = Features (concat (map (tokens b) pre) @ [''sriov'']
                       @ concat (map (tokens b) (examined b post)))"
    by (simp add: network_Discover_eq [OF assms(1)] ex tok)
qed

lemma netid_skip:
  assumes "ioutil_ReadDir b hostsys_net = Inr (pre @ name # post)"
    "read_int b (hostsys_numvfs name) = None"
  shows "fst (netid_Discover b)
    = fst (netid_Discover (b\<lparr>ioutil_ReadDir := (ioutil_ReadDir b)(hostsys_net := Inr (pre @ post))\<rparr>))"
proof -
  let ?b' = "b\<lparr>ioutil_ReadDir := (ioutil_ReadDir b)(hostsys_net := Inr (pre @ post))\<rparr>"
  have upd: "ioutil_ReadDir ?b' hostsys_net = Inr (pre @ post)"
    by simp
  have "grand_total b (pre @ name # post) = grand_total b (pre @ post)"
    by (simp add: grand_total_def numvfs_values_skip [OF assms(2)])
  then show ?thesis
    by (simp add: netid_Discover_ok [OF assms(1)] netid_Discover_ok [OF upd])
qed

lemma netid_skip_value:
  assumes "ioutil_ReadDir b hostsys_net = Inr (pre @ name # post)"
    "read_int b (hostsys_numvfs name) = None"
  shows "fst (netid_Discover b)
    = Features (if 0 < grand_total b (pre @ post) then [''SRIOV''] else [])"
proof -
  have "grand_total b (pre @ name # post) = grand_total b (pre @ post)"
    by (simp add: grand_total_def numvfs_values_skip [OF assms(2)])
  then show ?thesis
    by (simp add: netid_Discover_ok [OF assms(1)])
qed

text \<open>
  Claim C6. The network source, in either mode, returns an error exactly when the
  enumeration of the interfaces fails, and then no feature list. An interface whose
  attribute is absent, unreadable, empty or not a number does not fail the probe and does
  not end the scan. In the direct-access mode, with the total attribute at fault the
  result is that of the run without the interface; with the configured attribute at fault
  the interface keeps its \<^verbatim>\<open>sriov\<close> and the scan goes on with the interfaces after
  it. In the mounted-sysfs mode the attribute of every entry is read, whichever of them
  are at fault, and the result is decided by the total of the other entries.
\<close>

theorem network_error_iff_enumeration_fails:
  "((\<exists>e. fst (network_Discover b) = Error e) \<longleftrightarrow> (\<exists>m. net_Interfaces b = Inl m))
   \<and> ((\<exists>e. fst (netid_Discover b) = Error e) \<longleftrightarrow> (\<exists>m. ioutil_ReadDir b hostsys_net = Inl m))
   \<and> (net_Interfaces b = Inr ifs \<longrightarrow> (\<exists>feats. fst (network_Discover b) = Features feats))
   \<and> (ioutil_ReadDir b hostsys_net = Inr names \<longrightarrow> (\<exists>feats. fst (netid_Discover b) = Features feats))
   \<and> (net_Interfaces b = Inr (pre @ i # post) \<and> selected i \<and> read_int b (totalVfsPath i) = None
        \<longrightarrow> fst (network_Discover b)
              = fst (network_Discover (b\<lparr>net_Interfaces := Inr (pre @ post)\<rparr>)))
   \<and> (net_Interfaces b = Inr (pre @ i # post) \<and> (\<forall>j \<in> set pre. \<not> configured b j)
          \<and> capable b i \<and> read_int b (numVfsPath i) = None
        \<longrightarrow> fst (network_Discover b)
              = Features (concat (map (tokens b) pre) @ [''sriov'']
                          @ concat (map (tokens b) (examined b post)))
            \<and> examined b (pre @ i # post) = pre @ i # examined b post)
   \<and> (ioutil_ReadDir b hostsys_net = Inr (pre' @ name # post')
          \<and> read_int b (hostsys_numvfs name) = None
        \<longrightarrow> fst (netid_Discover b)
              = fst (netid_Discover
                  (b\<lparr>ioutil_ReadDir := (ioutil_ReadDir b)(hostsys_net := Inr (pre' @ post'))\<rparr>))
            \<and> fst (netid_Discover b)
              = Features (if 0 < grand_total b (pre' @ post') then [''SRIOV''] else []))
   \<and> (ioutil_ReadDir b hostsys_net = Inr names \<longrightarrow>
        snd (netid_Discover b)
          = ReadDir hostsys_net # map (\<lambda>name. ReadFile (hostsys_numvfs name)) names)"
proof (intro conjI)
  show "(\<exists>e. fst (network_Discover b) = Error e) \<longleftrightarrow> (\<exists>m. net_Interfaces b = Inl m)"
    by (rule network_Discover_Error)
  show "(\<exists>e. fst (netid_Discover b) = Error e) \<longleftrightarrow> (\<exists>m. ioutil_ReadDir b hostsys_net = Inl m)"
    by (rule netid_Discover_Error)
  show "net_Interfaces b = Inr ifs \<longrightarrow> (\<exists>feats. fst (network_Discover b) = Features feats)"
    by (simp add: network_Discover_eq)
  show "ioutil_ReadDir b hostsys_net = Inr names \<longrightarrow> (\<exists>feats. fst (netid_Discover b) = Features feats)"
    by (simp add: netid_Discover_ok)
  show "net_Interfaces b = Inr (pre @ i # post) \<and> selected i \<and> read_int b (totalVfsPath i) = None
        \<longrightarrow> fst (network_Discover b)
              = fst (network_Discover (b\<lparr>net_Interfaces := Inr (pre @ post)\<rparr>))"
    using network_skip_total [of b pre i post] by blast
  show "net_Interfaces b = Inr (pre @ i # post) \<and> (\<forall>j \<in> set pre. \<not> configured b j)
          \<and> capable b i \<and> read_int b (numVfsPath i) = None
        \<longrightarrow> fst (network_Discover b)
              = Features (concat (map (tokens b) pre) @ [''sriov'']
                          @ concat (map (tokens b) (examined b post)))
            \<and> examined b (pre @ i # post) = pre @ i # examined b post"
    using network_skip_num [of b pre i post] by blast
  show "ioutil_ReadDir b hostsys_net = Inr (pre' @ name # post')
          \<and> read_int b (hostsys_numvfs name) = None
        \<longrightarrow> fst (netid_Discover b)
              = fst (netid_Discover
                  (b\<lparr>ioutil_ReadDir := (ioutil_ReadDir b)(hostsys_net := Inr (pre' @ post'))\<rparr>))
            \<and> fst (netid_Discover b)
              = Features (if 0 < grand_total b (pre' @ post') then [''SRIOV''] else [])"
    using netid_skip [of b pre' name post'] netid_skip_value [of b pre' name post'] by blast
  show "ioutil_ReadDir b hostsys_net = Inr names \<longrightarrow>
        snd (netid_Discover b)
          = ReadDir hostsys_net # map (\<lambda>name. ReadFile (hostsys_numvfs name)) names"
    by (simp add: netid_Discover_events)
qed

theorem network_error_iff_enumeration_fails_witness:
  "(\<exists>e. fst (network_Discover host_noenum) = Error e)
   \<and> (\<exists>e. fst (netid_Discover host_noenum) = Error e)
   \<and> fst (network_Discover host_faulty)
       = fst (network_Discover (host_faulty\<lparr>net_Interfaces := Inr [eth ''E'', eth ''C'']\<rparr>))
   \<and> fst (network_Discover host_faulty) = Features [''sriov'', ''sriov'', ''sriov-configured'']
   \<and> fst (netid_Discover host_faulty) = Features [''SRIOV'']
   \<and> snd (netid_Discover host_faulty)
       = [ReadDir hostsys_net, ReadFile (hostsys_numvfs ''C''), ReadFile (hostsys_numvfs ''D''),
          ReadFile (hostsys_numvfs ''E'')]"
proof -
  note T = network_error_iff_enumeration_fails
  have "\<exists>m. net_Interfaces host_noenum = Inl m"
    by (simp add: host_noenum_def)
  with T [where b = host_noenum]
  have 1: "\<exists>e. fst (network_Discover host_noenum) = Error e"
    by blast
  have "\<exists>m. ioutil_ReadDir host_noenum hostsys_net = Inl m"
    by (simp add: host_noenum_def host_def)
  with T [where b = host_noenum]
  have 2: "\<exists>e. fst (netid_Discover host_noenum) = Error e"
    by blast
  have ifs: "net_Interfaces host_faulty = Inr [eth ''D'', eth ''E'', eth ''C'']"
    by (simp add: host_faulty_def host_def)
  have selD: "selected (eth ''D'')"
    by code_simp
  have totD: "read_int host_faulty (totalVfsPath (eth ''D'')) = None"
    by code_simp
  from ifs have "net_Interfaces host_faulty = Inr ([] @ eth ''D'' # [eth ''E'', eth ''C''])"
    by simp
  with selD totD T [where b = host_faulty and pre = "[]" and i = "eth ''D''"
      and post = "[eth ''E'', eth ''C'']"]
  have "fst (network_Discover host_faulty)
       = fst (network_Discover (host_faulty\<lparr>net_Interfaces := Inr ([] @ [eth ''E'', eth ''C''])\<rparr>))"
    by blast
  then have 3: "fst (network_Discover host_faulty)
       = fst (network_Discover (host_faulty\<lparr>net_Interfaces := Inr [eth ''E'', eth ''C'']\<rparr>))"
    unfolding append_Nil .
  have ncD: "\<forall>j \<in> set [eth ''D'']. \<not> configured host_faulty j"
    using totD by (simp add: configured_def capable_def positive_def)
  have capE: "capable host_faulty (eth ''E'')"
    by code_simp
  have numE: "read_int host_faulty (numVfsPath (eth ''E'')) = None"
    by code_simp
  from ifs have "net_Interfaces host_faulty = Inr ([eth ''D''] @ eth ''E'' # [eth ''C''])"
    by simp
  with ncD capE numE T [where b = host_faulty and pre = "[eth ''D'']" and i = "eth ''E''"
      and post = "[eth ''C'']"]
  have E: "fst (network_Discover host_faulty)
        = Features (concat (map (tokens host_faulty) [eth ''D'']) @ [''sriov'']
                    @ concat (map (tokens host_faulty) (examined host_faulty [eth ''C''])))"
    by blast
  have tokD: "tokens host_faulty (eth ''D'') = []"
    by code_simp
  have tokC: "tokens host_faulty (eth ''C'') = [''sriov'', ''sriov-configured'']"
    by code_simp
  have exC: "examined host_faulty [eth ''C''] = [eth ''C'']"
    by code_simp
  have "concat (map (tokens host_faulty) [eth ''D'']) @ [''sriov'']
          @ concat (map (tokens host_faulty) (examined host_faulty [eth ''C'']))
        = [''sriov'', ''sriov'', ''sriov-configured'']"
    by (simp add: tokD tokC exC)
  with E have 4: "fst (network_Discover host_faulty)
      = Features [''sriov'', ''sriov'', ''sriov-configured'']"
    by (simp only:)
  have dir: "ioutil_ReadDir host_faulty hostsys_net = Inr ([''C''] @ ''D'' # [''E''])"
    by (simp add: host_faulty_def host_def hostsys_net_def)
  have numD: "read_int host_faulty (hostsys_numvfs ''D'') = None"
    by code_simp
  from dir numD T [where b = host_faulty and pre' = "[''C'']" and name = "''D''"
      and post' = "[''E'']"]
  have V: "fst (netid_Discover host_faulty)
       = Features (if 0 < grand_total host_faulty ([''C''] @ [''E'']) then [''SRIOV''] else [])"
    by blast
  have "grand_total host_faulty ([''C''] @ [''E'']) = 2"
    by code_simp
  with V have 5: "fst (netid_Discover host_faulty) = Features [''SRIOV'']"
    by simp
  from dir T [where b = host_faulty and names = "[''C''] @ ''D'' # [''E'']"]
  have "snd (netid_Discover host_faulty)
          = ReadDir hostsys_net
            # map (\<lambda>name. ReadFile (hostsys_numvfs name)) ([''C''] @ ''D'' # [''E''])"
    by blast
  then have 6: "snd (netid_Discover host_faulty)
       = [ReadDir hostsys_net, ReadFile (hostsys_numvfs ''C''), ReadFile (hostsys_numvfs ''D''),
          ReadFile (hostsys_numvfs ''E'')]"
    by simp
  from 1 2 3 4 5 6 show ?thesis
    by blast
qed

end
